theory Spec2Isabelle
  imports Complex_Main
begin

section \<open>Quasinormal modes of Kerr black holes: the module \<open>pykerr/qnm.py\<close>\<close>

text \<open>
  The module interpolates tabulated mode data over the spin. Python floats are read as
  real numbers, Python's unbounded integers as \<open>int\<close>, its exceptions as values of the
  type \<open>error\<close>, and the two module-level dictionaries as maps that every function takes
  and returns. The bundled data files and the interpolation scheme of the numerical
  library are not part of the module: they are parameters of every definition.
\<close>

subsection \<open>Errors, constants and string formatting\<close>

datatype error = ValueError string | KeyError string

text \<open>\<^verbatim>\<open>MAX_SPIN = 0.9997\<close> and \<^verbatim>\<open>MTSUN = 4.925491025543576e-06\<close>.\<close>

definition MAX_SPIN :: real where
  "MAX_SPIN = 9997 / 10000"

definition MTSUN :: real where
  "MTSUN = 4925491025543576 / 10 ^ 21"

text \<open>
  \<^verbatim>\<open>'{}'.format(k)\<close> for an integer \<open>k\<close>: its decimal digits, after a minus sign when
  \<open>k\<close> is negative.
\<close>

fun str_nat :: "nat \<Rightarrow> string" where
  "str_nat k = (if k < 10 then [''0123456789'' ! k]
                else str_nat (k div 10) @ [''0123456789'' ! (k mod 10)])"

declare str_nat.simps [simp del]

definition str_int :: "int \<Rightarrow> string" where
  "str_int k = (if k < 0 then CHR ''-'' # str_nat (nat (- k)) else str_nat (nat k))"

subsection \<open>The bundled data and the interpolation scheme\<close>

text \<open>
  A data file is a table of named groups, a group a table of named arrays. An array
  holds complex numbers; an array of reals is one whose imaginary parts vanish, which is
  also what \<^verbatim>\<open>.real\<close> and \<^verbatim>\<open>.imag\<close> of the numerical library make of it. The package
  resources map a resource name to the file stored under it.
\<close>

type_synonym dataset = "complex list"
type_synonym hdf_group = "string \<rightharpoonup> dataset"
type_synonym hdf_file = "string \<rightharpoonup> hdf_group"
type_synonym resources = "string \<rightharpoonup> hdf_file"

text \<open>
  A spline is the function that evaluates it. The constructor
  \<^verbatim>\<open>InterpolatedUnivariateSpline(x, y)\<close> belongs to the numerical library; it is the
  parameter \<open>interp\<close> of the definitions below, which are stated for every
  interpolation scheme.
\<close>

type_synonym spline = "real \<Rightarrow> real"
type_synonym interpolation = "real list \<Rightarrow> real list \<Rightarrow> spline"

text \<open>
  The caches \<^verbatim>\<open>_reomega_splines\<close> and \<^verbatim>\<open>_imomega_splines\<close>, keyed by \<open>(l, |m|, n)\<close>.
  The field \<open>requested\<close> records the file-system effect of the module: the names of the
  resources asked of the package, one for every run of \<^verbatim>\<open>_create_spline\<close>, in order.
\<close>

type_synonym cache = "(int \<times> int \<times> int) \<rightharpoonup> spline"

record state =
  reomega_splines :: cache
  imomega_splines :: cache
  requested :: "string list"

definition initial :: state where
  "initial = \<lparr>reomega_splines = Map.empty, imomega_splines = Map.empty, requested = []\<rparr>"

subsection \<open>The functions of the module\<close>

definition resource_name :: "int \<Rightarrow> string" where
  "resource_name l = ''data/l'' @ str_int l @ ''.hdf''"

definition lmn_key :: "int \<Rightarrow> int \<Rightarrow> int \<Rightarrow> string" where
  "lmn_key l m n = str_int l @ str_int \<bar>m\<bar> @ str_int n"

text \<open>
  \<^verbatim>\<open>_create_spline(name, reim, l, m, n)\<close>. A missing resource is the \<^verbatim>\<open>OSError\<close> that the
  function turns into a \<^verbatim>\<open>ValueError\<close>; a missing group or array is the \<^verbatim>\<open>KeyError\<close>
  of the subscription, which the function does not catch. The selector \<open>reim\<close> is
  looked at after both arrays have been read.
\<close>

definition create_spline ::
  "resources \<Rightarrow> interpolation \<Rightarrow> string \<Rightarrow> string \<Rightarrow> int \<Rightarrow> int \<Rightarrow> int \<Rightarrow> string list
     \<Rightarrow> (error + spline) \<times> string list" where
  "create_spline res interp name reim l m n rq =
     (let lmn = lmn_key l m n;
          rq' = rq @ [resource_name l]
      in case res (resource_name l) of
           None \<Rightarrow> (Inl (ValueError (''unsupported lmn '' @ str_int l @ str_int m @ str_int n)), rq')
         | Some fp \<Rightarrow>
             (case fp lmn of
                None \<Rightarrow> (Inl (KeyError lmn), rq')
              | Some grp \<Rightarrow>
                  (case grp ''spin'' of
                     None \<Rightarrow> (Inl (KeyError ''spin''), rq')
                   | Some xs \<Rightarrow>
                       (let x = map Re xs
                        in case grp name of
                             None \<Rightarrow> (Inl (KeyError name), rq')
                           | Some y \<Rightarrow>
                               if reim = ''re'' then (Inr (interp x (map Re y)), rq')
                               else if reim = ''im'' then (Inr (interp x (map Im y)), rq')
                               else (Inl (ValueError (''reim must be eiter 're' or 'im'' @ [CHR 0x27])), rq')))))"

text \<open>
  \<^verbatim>\<open>_getspline(name, reim, l, m, n, cache)\<close>: the cached spline, or a new one that is
  stored before it is returned. A failure of \<^verbatim>\<open>_create_spline\<close> leaves the cache as it
  was.
\<close>

definition getspline ::
  "resources \<Rightarrow> interpolation \<Rightarrow> string \<Rightarrow> string \<Rightarrow> int \<Rightarrow> int \<Rightarrow> int \<Rightarrow> cache \<Rightarrow> string list
     \<Rightarrow> (error + spline) \<times> cache \<times> string list" where
  "getspline res interp name reim l m n cache rq =
     (case cache (l, \<bar>m\<bar>, n) of
        Some spline \<Rightarrow> (Inr spline, cache, rq)
      | None \<Rightarrow>
          (case create_spline res interp name reim l m n rq of
             (Inl e, rq') \<Rightarrow> (Inl e, cache, rq')
           | (Inr spline, rq') \<Rightarrow> (Inr spline, cache((l, \<bar>m\<bar>, n) \<mapsto> spline), rq')))"

text \<open>\<^verbatim>\<open>_checkspin(spin)\<close>; the message renders \<^verbatim>\<open>MAX_SPIN\<close> as Python does, \<^verbatim>\<open>0.9997\<close>.\<close>

definition checkspin :: "real \<Rightarrow> error + unit" where
  "checkspin spin =
     (if \<bar>spin\<bar> > MAX_SPIN then Inl (ValueError ''|spin| must be < 0.9997'') else Inr ())"

text \<open>
  Division of the numerical library's floats: a zero divisor gives an infinity or a
  not-a-number together with a warning, and raises nothing.
\<close>

datatype npfloat = Finite real | NonFinite

definition np_div :: "real \<Rightarrow> real \<Rightarrow> npfloat" where
  "np_div a b = (if b = 0 then NonFinite else Finite (a / b))"

text \<open>\<^verbatim>\<open>kerr_omega(spin, l, m, n)\<close>, on the two module-level caches.\<close>

definition kerr_omega ::
  "resources \<Rightarrow> interpolation \<Rightarrow> real \<Rightarrow> int \<Rightarrow> int \<Rightarrow> int \<Rightarrow> state \<Rightarrow> (error + complex) \<times> state" where
  "kerr_omega res interp spin l m n st =
     (case checkspin spin of
        Inl e \<Rightarrow> (Inl e, st)
      | Inr _ \<Rightarrow>
          (case getspline res interp ''omega'' ''re'' l m n (reomega_splines st) (requested st) of
             (Inl e, c, rq) \<Rightarrow> (Inl e, st\<lparr>reomega_splines := c, requested := rq\<rparr>)
           | (Inr respline, c, rq) \<Rightarrow>
               (case getspline res interp ''omega'' ''im'' l m n (imomega_splines st) rq of
                  (Inl e, c', rq') \<Rightarrow>
                    (Inl e, st\<lparr>reomega_splines := c, imomega_splines := c', requested := rq'\<rparr>)
                | (Inr imspline, c', rq') \<Rightarrow>
                    (let spin' = (if m = 0 then \<bar>spin\<bar> else spin);
                         sign = (- 1) ^ (if m < 0 then 1 else 0 :: nat)
                     in (Inr (Complex (sign * respline spin') (imspline spin')),
                         st\<lparr>reomega_splines := c, imomega_splines := c', requested := rq'\<rparr>)))))"

text \<open>\<^verbatim>\<open>kerr_freq(mass, spin, l, m, n)\<close>.\<close>

definition kerr_freq ::
  "resources \<Rightarrow> interpolation \<Rightarrow> real \<Rightarrow> real \<Rightarrow> int \<Rightarrow> int \<Rightarrow> int \<Rightarrow> state \<Rightarrow> (error + npfloat) \<times> state" where
  "kerr_freq res interp mass spin l m n st =
     (case checkspin spin of
        Inl e \<Rightarrow> (Inl e, st)
      | Inr _ \<Rightarrow>
          (case getspline res interp ''omega'' ''re'' l m n (reomega_splines st) (requested st) of
             (Inl e, c, rq) \<Rightarrow> (Inl e, st\<lparr>reomega_splines := c, requested := rq\<rparr>)
           | (Inr spline, c, rq) \<Rightarrow>
               (let spin' = (if m = 0 then \<bar>spin\<bar> else spin);
                    sign = (- 1) ^ (if m < 0 then 1 else 0 :: nat)
                in (Inr (np_div (sign * spline spin') (2 * pi * mass * MTSUN)),
                    st\<lparr>reomega_splines := c, requested := rq\<rparr>))))"

text \<open>\<^verbatim>\<open>kerr_tau(mass, spin, l, m, n)\<close>.\<close>

definition kerr_tau ::
  "resources \<Rightarrow> interpolation \<Rightarrow> real \<Rightarrow> real \<Rightarrow> int \<Rightarrow> int \<Rightarrow> int \<Rightarrow> state \<Rightarrow> (error + npfloat) \<times> state" where
  "kerr_tau res interp mass spin l m n st =
     (case checkspin spin of
        Inl e \<Rightarrow> (Inl e, st)
      | Inr _ \<Rightarrow>
          (case getspline res interp ''omega'' ''im'' l m n (imomega_splines st) (requested st) of
             (Inl e, c, rq) \<Rightarrow> (Inl e, st\<lparr>imomega_splines := c, requested := rq\<rparr>)
           | (Inr spline, c, rq) \<Rightarrow>
               (let spin' = (if m = 0 then \<bar>spin\<bar> else spin)
                in (Inr (np_div (- mass * MTSUN) (spline spin')),
                    st\<lparr>imomega_splines := c, requested := rq\<rparr>))))"

subsection \<open>Tabulated modes, reachable states, and a table to evaluate on\<close>

text \<open>
  The samples of a mode: the arrays \<^verbatim>\<open>spin\<close> and \<^verbatim>\<open>omega\<close> of the group of \<open>(l, |m|, n)\<close>
  in the resource of \<open>l\<close>. Data exist for a mode when this is not \<open>None\<close>.
\<close>

definition mode_data :: "resources \<Rightarrow> int \<Rightarrow> int \<Rightarrow> int \<Rightarrow> (dataset \<times> dataset) option" where
  "mode_data res l m n =
     (case res (resource_name l) of
        None \<Rightarrow> None
      | Some fp \<Rightarrow>
          (case fp (lmn_key l m n) of
             None \<Rightarrow> None
           | Some grp \<Rightarrow>
               (case grp ''spin'' of
                  None \<Rightarrow> None
                | Some xs \<Rightarrow> (case grp ''omega'' of None \<Rightarrow> None | Some ys \<Rightarrow> Some (xs, ys)))))"

text \<open>
  A cache fits the data when each of its entries is the interpolant of the samples of
  its key, for the part (real or imaginary) of \<open>omega\<close> that the cache is for.
\<close>

definition cache_fits :: "resources \<Rightarrow> interpolation \<Rightarrow> (complex \<Rightarrow> real) \<Rightarrow> cache \<Rightarrow> bool" where
  "cache_fits res interp part c \<longleftrightarrow>
     (\<forall>l a n s. c (l, a, n) = Some s \<longrightarrow>
        (\<exists>xs ys. mode_data res l a n = Some (xs, ys) \<and> s = interp (map Re xs) (map part ys)))"

text \<open>
  The states of a process: the module is loaded with empty caches, and afterwards the
  caches change only through calls of the three public functions, on data that stay the
  same.
\<close>

inductive reachable :: "resources \<Rightarrow> interpolation \<Rightarrow> state \<Rightarrow> bool" for res interp where
  start: "reachable res interp initial"
| omega: "reachable res interp st \<Longrightarrow> reachable res interp (snd (kerr_omega res interp spin l m n st))"
| freq: "reachable res interp st \<Longrightarrow> reachable res interp (snd (kerr_freq res interp mass spin l m n st))"
| tau: "reachable res interp st \<Longrightarrow> reachable res interp (snd (kerr_tau res interp mass spin l m n st))"

text \<open>An error names a mode when its text contains the digits of \<open>l\<close>, \<open>m\<close> and \<open>n\<close> in a row.\<close>

fun contains :: "string \<Rightarrow> string \<Rightarrow> bool" where
  "contains [] p = (p = [])"
| "contains (c # cs) p = (take (length p) (c # cs) = p \<or> contains cs p)"

fun message :: "error \<Rightarrow> string" where
  "message (ValueError s) = s"
| "message (KeyError s) = s"

definition names_mode :: "error \<Rightarrow> int \<Rightarrow> int \<Rightarrow> int \<Rightarrow> bool" where
  "names_mode e l m n = contains (message e) (str_int l @ str_int m @ str_int n)"

text \<open>
  An interpolation scheme to evaluate the definitions on: the polynomial through all
  the samples, in Lagrange's form. On four samples with increasing spins the cubic
  spline of the numerical library is this polynomial.
\<close>

fun basis :: "real list \<Rightarrow> real \<Rightarrow> real \<Rightarrow> real" where
  "basis [] xi s = 1"
| "basis (xj # xs) xi s = (if xj = xi then 1 else (s - xj) / (xi - xj)) * basis xs xi s"

fun lagrange_sum :: "real list \<Rightarrow> (real \<times> real) list \<Rightarrow> real \<Rightarrow> real" where
  "lagrange_sum knots [] s = 0"
| "lagrange_sum knots ((xi, yi) # ps) s = yi * basis knots xi s + lagrange_sum knots ps s"

definition lagrange :: interpolation where
  "lagrange x y = lagrange_sum x (zip x y)"

text \<open>A table with one mode, \<open>(2, 2, 0)\<close>, sampled at four spins.\<close>

definition example_spin :: dataset where
  "example_spin = [- 1 / 2, 0, 1 / 2, 9 / 10]"

definition example_omega :: dataset where
  "example_omega =
     [Complex (32 / 100) (- 90 / 1000), Complex (37 / 100) (- 89 / 1000),
      Complex (46 / 100) (- 86 / 1000), Complex (67 / 100) (- 65 / 1000)]"

definition example_resources :: resources where
  "example_resources =
     [''data/l2.hdf'' \<mapsto> [''220'' \<mapsto> [''spin'' \<mapsto> example_spin, ''omega'' \<mapsto> example_omega]]]"

text \<open>
  The state after the first call \<^verbatim>\<open>kerr_omega(0, 2, 2, 0)\<close> on the example table: one
  spline in each cache and two requests for the resource of \<open>l = 2\<close>.
\<close>

definition example_re_spline :: spline where
  "example_re_spline = lagrange (map Re example_spin) (map Re example_omega)"

definition example_im_spline :: spline where
  "example_im_spline = lagrange (map Re example_spin) (map Im example_omega)"

definition example_loaded :: state where
  "example_loaded =
     \<lparr>reomega_splines = [(2, 2, 0) \<mapsto> example_re_spline],
      imomega_splines = [(2, 2, 0) \<mapsto> example_im_spline],
      requested = [''data/l2.hdf'', ''data/l2.hdf'']\<rparr>"

text \<open>A table with the mode \<open>(2, 0, 0)\<close>, on the same four samples.\<close>

definition example_resources_m0 :: resources where
  "example_resources_m0 =
     [''data/l2.hdf'' \<mapsto> [''200'' \<mapsto> [''spin'' \<mapsto> example_spin, ''omega'' \<mapsto> example_omega]]]"

section \<open>Properties\<close>

subsection \<open>The spin check, the loader and the cache\<close>

lemma checkspin_ok: "\<bar>spin\<bar> \<le> MAX_SPIN \<Longrightarrow> checkspin spin = Inr ()"
  by (simp add: checkspin_def)

lemma checkspin_bad:
  "\<bar>spin\<bar> > MAX_SPIN \<Longrightarrow> checkspin spin = Inl (ValueError ''|spin| must be < 0.9997'')"
  by (simp add: checkspin_def)

lemma checkspin_neg: "checkspin (- spin) = checkspin spin"
  by (simp add: checkspin_def)

lemma lmn_key_neg: "lmn_key l (- m) n = lmn_key l m n"
  by (simp add: lmn_key_def)

lemma lmn_key_abs: "lmn_key l \<bar>m\<bar> n = lmn_key l m n"
  by (simp add: lmn_key_def)

lemma mode_data_neg: "mode_data res l (- m) n = mode_data res l m n"
  by (simp add: mode_data_def lmn_key_neg cong: option.case_cong)

lemma mode_data_abs: "mode_data res l \<bar>m\<bar> n = mode_data res l m n"
  by (simp add: mode_data_def lmn_key_abs cong: option.case_cong)

lemma create_spline_re:
  "mode_data res l m n = Some (xs, ys) \<Longrightarrow>
   create_spline res interp ''omega'' ''re'' l m n rq =
     (Inr (interp (map Re xs) (map Re ys)), rq @ [resource_name l])"
  by (auto simp: mode_data_def create_spline_def Let_def split: option.splits)

lemma create_spline_im:
  "mode_data res l m n = Some (xs, ys) \<Longrightarrow>
   create_spline res interp ''omega'' ''im'' l m n rq =
     (Inr (interp (map Re xs) (map Im ys)), rq @ [resource_name l])"
  by (auto simp: mode_data_def create_spline_def Let_def split: option.splits)

lemma create_spline_re_ok:
  "create_spline res interp ''omega'' ''re'' l m n rq = (Inr s, rq') \<Longrightarrow>
   \<exists>xs ys. mode_data res l m n = Some (xs, ys) \<and> s = interp (map Re xs) (map Re ys)"
  by (auto simp: mode_data_def create_spline_def Let_def split: option.splits)

lemma create_spline_im_ok:
  "create_spline res interp ''omega'' ''im'' l m n rq = (Inr s, rq') \<Longrightarrow>
   \<exists>xs ys. mode_data res l m n = Some (xs, ys) \<and> s = interp (map Re xs) (map Im ys)"
  by (auto simp: mode_data_def create_spline_def Let_def split: option.splits)

lemma create_spline_requested:
  "snd (create_spline res interp name reim l m n rq) = rq @ [resource_name l]"
  by (auto simp: create_spline_def Let_def split: option.splits)

lemma create_spline_result:
  "fst (create_spline res interp name reim l m n rq) =
   fst (create_spline res interp name reim l m n rq')"
  by (auto simp: create_spline_def Let_def split: option.splits)

lemma getspline_hit:
  "cache (l, \<bar>m\<bar>, n) = Some s \<Longrightarrow>
   getspline res interp name reim l m n cache rq = (Inr s, cache, rq)"
  by (simp add: getspline_def)

lemma getspline_miss:
  "cache (l, \<bar>m\<bar>, n) = None \<Longrightarrow>
   create_spline res interp name reim l m n rq = (Inr s, rq') \<Longrightarrow>
   getspline res interp name reim l m n cache rq = (Inr s, cache((l, \<bar>m\<bar>, n) \<mapsto> s), rq')"
  by (simp add: getspline_def)

lemma getspline_fail:
  "getspline res interp name reim l m n cache rq = (Inl e, c, rq') \<Longrightarrow>
   c = cache \<and> cache (l, \<bar>m\<bar>, n) = None \<and>
   create_spline res interp name reim l m n rq = (Inl e, rq')"
  by (auto simp: getspline_def split: option.splits sum.splits prod.splits)

lemma getspline_ok:
  "getspline res interp name reim l m n cache rq = (Inr s, c, rq') \<Longrightarrow>
   c (l, \<bar>m\<bar>, n) = Some s \<and>
   (cache (l, \<bar>m\<bar>, n) = Some s \<and> c = cache \<and> rq' = rq \<or>
    cache (l, \<bar>m\<bar>, n) = None \<and> c = cache((l, \<bar>m\<bar>, n) \<mapsto> s) \<and>
    create_spline res interp name reim l m n rq = (Inr s, rq'))"
  by (auto simp: getspline_def split: option.splits sum.splits prod.splits)

lemma getspline_keeps:
  "cache k = Some s \<Longrightarrow> fst (snd (getspline res interp name reim l m n cache rq)) k = Some s"
  by (auto simp: getspline_def split: option.splits sum.splits prod.splits)

lemma getspline_again:
  "getspline res interp name reim l m n cache rq = (Inr s, c, rq') \<Longrightarrow>
   getspline res interp name reim l m n c rq' = (Inr s, c, rq')"
  by (auto dest!: getspline_ok simp: getspline_hit)

lemma getspline_fits_re:
  assumes "cache_fits res interp Re cache"
  shows "cache_fits res interp Re (fst (snd (getspline res interp ''omega'' ''re'' l m n cache rq)))"
proof (cases "cache (l, \<bar>m\<bar>, n)")
  case (Some s)
  then show ?thesis using assms by (simp add: getspline_hit)
next
  case None
  show ?thesis
  proof (cases "create_spline res interp ''omega'' ''re'' l m n rq")
    case (Pair r rq')
    show ?thesis
    proof (cases r)
      case (Inl e)
      then show ?thesis using assms None Pair by (simp add: getspline_def)
    next
      case (Inr s)
      with Pair obtain xs ys where d: "mode_data res l m n = Some (xs, ys)"
        and s: "s = interp (map Re xs) (map Re ys)"
        using create_spline_re_ok by blast
      have "cache_fits res interp Re (cache((l, \<bar>m\<bar>, n) \<mapsto> s))"
        using assms d s unfolding cache_fits_def by (auto simp: mode_data_abs)
      then show ?thesis using None Pair Inr by (simp add: getspline_def)
    qed
  qed
qed

lemma getspline_fits_im:
  assumes "cache_fits res interp Im cache"
  shows "cache_fits res interp Im (fst (snd (getspline res interp ''omega'' ''im'' l m n cache rq)))"
proof (cases "cache (l, \<bar>m\<bar>, n)")
  case (Some s)
  then show ?thesis using assms by (simp add: getspline_hit)
next
  case None
  show ?thesis
  proof (cases "create_spline res interp ''omega'' ''im'' l m n rq")
    case (Pair r rq')
    show ?thesis
    proof (cases r)
      case (Inl e)
      then show ?thesis using assms None Pair by (simp add: getspline_def)
    next
      case (Inr s)
      with Pair obtain xs ys where d: "mode_data res l m n = Some (xs, ys)"
        and s: "s = interp (map Re xs) (map Im ys)"
        using create_spline_im_ok by blast
      have "cache_fits res interp Im (cache((l, \<bar>m\<bar>, n) \<mapsto> s))"
        using assms d s unfolding cache_fits_def by (auto simp: mode_data_abs)
      then show ?thesis using None Pair Inr by (simp add: getspline_def)
    qed
  qed
qed

lemma getspline_data_re:
  assumes "mode_data res l m n = Some (xs, ys)" and "cache_fits res interp Re cache"
  shows "fst (getspline res interp ''omega'' ''re'' l m n cache rq) = Inr (interp (map Re xs) (map Re ys))"
proof (cases "cache (l, \<bar>m\<bar>, n)")
  case None
  then show ?thesis using assms(1) by (simp add: getspline_def create_spline_re)
next
  case (Some s)
  with assms(2) obtain xs' ys' where "mode_data res l \<bar>m\<bar> n = Some (xs', ys')"
    and "s = interp (map Re xs') (map Re ys')"
    unfolding cache_fits_def by blast
  with assms(1) have "s = interp (map Re xs) (map Re ys)" by (simp add: mode_data_abs)
  with Some show ?thesis by (simp add: getspline_hit)
qed

lemma getspline_data_im:
  assumes "mode_data res l m n = Some (xs, ys)" and "cache_fits res interp Im cache"
  shows "fst (getspline res interp ''omega'' ''im'' l m n cache rq) = Inr (interp (map Re xs) (map Im ys))"
proof (cases "cache (l, \<bar>m\<bar>, n)")
  case None
  then show ?thesis using assms(1) by (simp add: getspline_def create_spline_im)
next
  case (Some s)
  with assms(2) obtain xs' ys' where "mode_data res l \<bar>m\<bar> n = Some (xs', ys')"
    and "s = interp (map Re xs') (map Im ys')"
    unfolding cache_fits_def by blast
  with assms(1) have "s = interp (map Re xs) (map Im ys)" by (simp add: mode_data_abs)
  with Some show ?thesis by (simp add: getspline_hit)
qed

lemma kerr_omega_caches:
  "reomega_splines (snd (kerr_omega res interp spin l m n st)) = reomega_splines st \<or>
   reomega_splines (snd (kerr_omega res interp spin l m n st)) =
     fst (snd (getspline res interp ''omega'' ''re'' l m n (reomega_splines st) (requested st)))"
  by (auto simp: kerr_omega_def Let_def split: sum.splits prod.splits)

lemma kerr_omega_caches_im:
  "imomega_splines (snd (kerr_omega res interp spin l m n st)) = imomega_splines st \<or>
   (\<exists>rq. imomega_splines (snd (kerr_omega res interp spin l m n st)) =
     fst (snd (getspline res interp ''omega'' ''im'' l m n (imomega_splines st) rq)))"
  by (auto simp: kerr_omega_def Let_def split: sum.splits prod.splits) (metis fst_conv snd_conv)+

lemma kerr_freq_caches:
  "imomega_splines (snd (kerr_freq res interp mass spin l m n st)) = imomega_splines st \<and>
   (reomega_splines (snd (kerr_freq res interp mass spin l m n st)) = reomega_splines st \<or>
    reomega_splines (snd (kerr_freq res interp mass spin l m n st)) =
     fst (snd (getspline res interp ''omega'' ''re'' l m n (reomega_splines st) (requested st))))"
  by (auto simp: kerr_freq_def Let_def split: sum.splits prod.splits)

lemma kerr_tau_caches:
  "reomega_splines (snd (kerr_tau res interp mass spin l m n st)) = reomega_splines st \<and>
   (imomega_splines (snd (kerr_tau res interp mass spin l m n st)) = imomega_splines st \<or>
    imomega_splines (snd (kerr_tau res interp mass spin l m n st)) =
     fst (snd (getspline res interp ''omega'' ''im'' l m n (imomega_splines st) (requested st))))"
  by (auto simp: kerr_tau_def Let_def split: sum.splits prod.splits)

lemma reachable_fits:
  "reachable res interp st \<Longrightarrow>
   cache_fits res interp Re (reomega_splines st) \<and> cache_fits res interp Im (imomega_splines st)"
proof (induction rule: reachable.induct)
  case start
  show ?case by (simp add: initial_def cache_fits_def)
next
  case (omega st spin l m n)
  then show ?case
    using kerr_omega_caches[of res interp spin l m n st]
      kerr_omega_caches_im[of res interp spin l m n st]
    by (metis getspline_fits_re getspline_fits_im)
next
  case (freq st mass spin l m n)
  then show ?case
    using kerr_freq_caches[of res interp mass spin l m n st]
    by (metis getspline_fits_re)
next
  case (tau st mass spin l m n)
  then show ?case
    using kerr_tau_caches[of res interp mass spin l m n st]
    by (metis getspline_fits_im)
qed

lemma getspline_rq:
  "fst (getspline res interp name reim l m n cache rq) =
     fst (getspline res interp name reim l m n cache rq') \<and>
   fst (snd (getspline res interp name reim l m n cache rq)) =
     fst (snd (getspline res interp name reim l m n cache rq'))"
proof (cases "cache (l, \<bar>m\<bar>, n)")
  case (Some s)
  then show ?thesis by (simp add: getspline_hit)
next
  case None
  have "fst (create_spline res interp name reim l m n rq) =
        fst (create_spline res interp name reim l m n rq')"
    by (rule create_spline_result)
  then show ?thesis using None
    by (cases "create_spline res interp name reim l m n rq";
        cases "create_spline res interp name reim l m n rq'")
       (auto simp: getspline_def split: sum.splits)
qed

lemma getspline_repeat:
  "fst (getspline res interp name reim l m n
         (fst (snd (getspline res interp name reim l m n cache rq))) rq') =
   fst (getspline res interp name reim l m n cache rq)"
proof (cases "getspline res interp name reim l m n cache rq")
  case (fields r c rq1)
  show ?thesis
  proof (cases r)
    case (Inl e)
    with fields have "c = cache" using getspline_fail by blast
    with fields show ?thesis using getspline_rq[of res interp name reim l m n cache rq' rq] by simp
  next
    case (Inr s)
    with fields have "c (l, \<bar>m\<bar>, n) = Some s" using getspline_ok by blast
    with fields Inr show ?thesis by (simp add: getspline_hit)
  qed
qed

lemma getspline_present_re:
  "mode_data res l m n = Some d \<Longrightarrow>
   \<exists>s. fst (getspline res interp ''omega'' ''re'' l m n cache rq) = Inr s"
  by (cases d; cases "cache (l, \<bar>m\<bar>, n)") (simp_all add: getspline_def create_spline_re)

lemma getspline_present_im:
  "mode_data res l m n = Some d \<Longrightarrow>
   \<exists>s. fst (getspline res interp ''omega'' ''im'' l m n cache rq) = Inr s"
  by (cases d; cases "cache (l, \<bar>m\<bar>, n)") (simp_all add: getspline_def create_spline_im)

lemma kerr_omega_result:
  "fst (kerr_omega res interp spin l m n st) =
     (case checkspin spin of
        Inl e \<Rightarrow> Inl e
      | Inr u \<Rightarrow>
          (case fst (getspline res interp ''omega'' ''re'' l m n (reomega_splines st) rq1) of
             Inl e \<Rightarrow> Inl e
           | Inr r \<Rightarrow>
               (case fst (getspline res interp ''omega'' ''im'' l m n (imomega_splines st) rq2) of
                  Inl e \<Rightarrow> Inl e
                | Inr i \<Rightarrow>
                    Inr (Complex ((- 1) ^ (if m < 0 then 1 else 0 :: nat) * r (if m = 0 then \<bar>spin\<bar> else spin))
                                 (i (if m = 0 then \<bar>spin\<bar> else spin))))))"
proof -
  obtain r c rq where g1:
    "getspline res interp ''omega'' ''re'' l m n (reomega_splines st) (requested st) = (r, c, rq)"
    by (cases "getspline res interp ''omega'' ''re'' l m n (reomega_splines st) (requested st)")
  obtain r' c' rq' where g2:
    "getspline res interp ''omega'' ''im'' l m n (imomega_splines st) rq = (r', c', rq')"
    by (cases "getspline res interp ''omega'' ''im'' l m n (imomega_splines st) rq")
  have f1: "fst (getspline res interp ''omega'' ''re'' l m n (reomega_splines st) rq1) = r"
    using getspline_rq[of res interp "''omega''" "''re''" l m n "reomega_splines st" rq1 "requested st"] g1
    by simp
  have f2: "fst (getspline res interp ''omega'' ''im'' l m n (imomega_splines st) rq2) = r'"
    using getspline_rq[of res interp "''omega''" "''im''" l m n "imomega_splines st" rq2 rq] g2
    by simp
  show ?thesis
    unfolding f1 f2 using g1 g2
    by (cases "checkspin spin"; cases r; cases r')
       (simp_all add: kerr_omega_def Let_def split del: if_split)
qed

subsection \<open>What the public functions return and store\<close>

lemma kerr_freq_result:
  "fst (kerr_freq res interp mass spin l m n st) =
     (case checkspin spin of
        Inl e \<Rightarrow> Inl e
      | Inr u \<Rightarrow>
          (case fst (getspline res interp ''omega'' ''re'' l m n (reomega_splines st) rq1) of
             Inl e \<Rightarrow> Inl e
           | Inr r \<Rightarrow>
               Inr (np_div ((- 1) ^ (if m < 0 then 1 else 0 :: nat) * r (if m = 0 then \<bar>spin\<bar> else spin))
                           (2 * pi * mass * MTSUN))))"
proof -
  obtain r c rq where g1:
    "getspline res interp ''omega'' ''re'' l m n (reomega_splines st) (requested st) = (r, c, rq)"
    by (cases "getspline res interp ''omega'' ''re'' l m n (reomega_splines st) (requested st)")
  have f1: "fst (getspline res interp ''omega'' ''re'' l m n (reomega_splines st) rq1) = r"
    using getspline_rq[of res interp "''omega''" "''re''" l m n "reomega_splines st" rq1 "requested st"] g1
    by simp
  show ?thesis
    unfolding f1 using g1
    by (cases "checkspin spin"; cases r)
       (simp_all add: kerr_freq_def Let_def split del: if_split)
qed

lemma kerr_tau_result:
  "fst (kerr_tau res interp mass spin l m n st) =
     (case checkspin spin of
        Inl e \<Rightarrow> Inl e
      | Inr u \<Rightarrow>
          (case fst (getspline res interp ''omega'' ''im'' l m n (imomega_splines st) rq1) of
             Inl e \<Rightarrow> Inl e
           | Inr i \<Rightarrow> Inr (np_div (- mass * MTSUN) (i (if m = 0 then \<bar>spin\<bar> else spin)))))"
proof -
  obtain r c rq where g1:
    "getspline res interp ''omega'' ''im'' l m n (imomega_splines st) (requested st) = (r, c, rq)"
    by (cases "getspline res interp ''omega'' ''im'' l m n (imomega_splines st) (requested st)")
  have f1: "fst (getspline res interp ''omega'' ''im'' l m n (imomega_splines st) rq1) = r"
    using getspline_rq[of res interp "''omega''" "''im''" l m n "imomega_splines st" rq1 "requested st"] g1
    by simp
  show ?thesis
    unfolding f1 using g1
    by (cases "checkspin spin"; cases r)
       (simp_all add: kerr_tau_def Let_def split del: if_split)
qed

lemma kerr_omega_re_cache:
  "reomega_splines (snd (kerr_omega res interp spin l m n st)) =
     (case checkspin spin of
        Inl e \<Rightarrow> reomega_splines st
      | Inr u \<Rightarrow> fst (snd (getspline res interp ''omega'' ''re'' l m n (reomega_splines st) rq1)))"
proof -
  obtain r c rq where g1:
    "getspline res interp ''omega'' ''re'' l m n (reomega_splines st) (requested st) = (r, c, rq)"
    by (cases "getspline res interp ''omega'' ''re'' l m n (reomega_splines st) (requested st)")
  obtain r' c' rq' where g2:
    "getspline res interp ''omega'' ''im'' l m n (imomega_splines st) rq = (r', c', rq')"
    by (cases "getspline res interp ''omega'' ''im'' l m n (imomega_splines st) rq")
  have f1: "fst (snd (getspline res interp ''omega'' ''re'' l m n (reomega_splines st) rq1)) = c"
    using getspline_rq[of res interp "''omega''" "''re''" l m n "reomega_splines st" rq1 "requested st"] g1
    by simp
  show ?thesis
    unfolding f1 using g1 g2
    by (cases "checkspin spin"; cases r; cases r')
       (simp_all add: kerr_omega_def Let_def split del: if_split)
qed

lemma kerr_omega_im_cache:
  "imomega_splines (snd (kerr_omega res interp spin l m n st)) =
     (case checkspin spin of
        Inl e \<Rightarrow> imomega_splines st
      | Inr u \<Rightarrow>
          (case fst (getspline res interp ''omega'' ''re'' l m n (reomega_splines st) rq1) of
             Inl e \<Rightarrow> imomega_splines st
           | Inr r \<Rightarrow> fst (snd (getspline res interp ''omega'' ''im'' l m n (imomega_splines st) rq2))))"
proof -
  obtain r c rq where g1:
    "getspline res interp ''omega'' ''re'' l m n (reomega_splines st) (requested st) = (r, c, rq)"
    by (cases "getspline res interp ''omega'' ''re'' l m n (reomega_splines st) (requested st)")
  obtain r' c' rq' where g2:
    "getspline res interp ''omega'' ''im'' l m n (imomega_splines st) rq = (r', c', rq')"
    by (cases "getspline res interp ''omega'' ''im'' l m n (imomega_splines st) rq")
  have f1: "fst (getspline res interp ''omega'' ''re'' l m n (reomega_splines st) rq1) = r"
    using getspline_rq[of res interp "''omega''" "''re''" l m n "reomega_splines st" rq1 "requested st"] g1
    by simp
  have f2: "fst (snd (getspline res interp ''omega'' ''im'' l m n (imomega_splines st) rq2)) = c'"
    using getspline_rq[of res interp "''omega''" "''im''" l m n "imomega_splines st" rq2 rq] g2
    by simp
  show ?thesis
    unfolding f1 f2 using g1 g2
    by (cases "checkspin spin"; cases r; cases r')
       (simp_all add: kerr_omega_def Let_def split del: if_split)
qed

lemma kerr_freq_re_cache:
  "reomega_splines (snd (kerr_freq res interp mass spin l m n st)) =
     (case checkspin spin of
        Inl e \<Rightarrow> reomega_splines st
      | Inr u \<Rightarrow> fst (snd (getspline res interp ''omega'' ''re'' l m n (reomega_splines st) rq1)))"
proof -
  obtain r c rq where g1:
    "getspline res interp ''omega'' ''re'' l m n (reomega_splines st) (requested st) = (r, c, rq)"
    by (cases "getspline res interp ''omega'' ''re'' l m n (reomega_splines st) (requested st)")
  have f1: "fst (snd (getspline res interp ''omega'' ''re'' l m n (reomega_splines st) rq1)) = c"
    using getspline_rq[of res interp "''omega''" "''re''" l m n "reomega_splines st" rq1 "requested st"] g1
    by simp
  show ?thesis
    unfolding f1 using g1
    by (cases "checkspin spin"; cases r)
       (simp_all add: kerr_freq_def Let_def split del: if_split)
qed

lemma kerr_tau_im_cache:
  "imomega_splines (snd (kerr_tau res interp mass spin l m n st)) =
     (case checkspin spin of
        Inl e \<Rightarrow> imomega_splines st
      | Inr u \<Rightarrow> fst (snd (getspline res interp ''omega'' ''im'' l m n (imomega_splines st) rq1)))"
proof -
  obtain r c rq where g1:
    "getspline res interp ''omega'' ''im'' l m n (imomega_splines st) (requested st) = (r, c, rq)"
    by (cases "getspline res interp ''omega'' ''im'' l m n (imomega_splines st) (requested st)")
  have f1: "fst (snd (getspline res interp ''omega'' ''im'' l m n (imomega_splines st) rq1)) = c"
    using getspline_rq[of res interp "''omega''" "''im''" l m n "imomega_splines st" rq1 "requested st"] g1
    by simp
  show ?thesis
    unfolding f1 using g1
    by (cases "checkspin spin"; cases r)
       (simp_all add: kerr_tau_def Let_def split del: if_split)
qed

lemma kerr_omega_repeat:
  "fst (kerr_omega res interp spin l m n (snd (kerr_omega res interp spin l m n st))) =
   fst (kerr_omega res interp spin l m n st)"
proof (cases "checkspin spin")
  case (Inl e)
  then show ?thesis by (simp add: kerr_omega_def)
next
  case (Inr u)
  let ?st' = "snd (kerr_omega res interp spin l m n st)"
  have re: "fst (getspline res interp ''omega'' ''re'' l m n (reomega_splines ?st') []) =
            fst (getspline res interp ''omega'' ''re'' l m n (reomega_splines st) [])"
    using Inr by (simp add: kerr_omega_re_cache[where ?rq1.0 = "[]"] getspline_repeat)
  show ?thesis
  proof (cases "fst (getspline res interp ''omega'' ''re'' l m n (reomega_splines st) [])")
    case (Inl e)
    then show ?thesis
      using Inr re
      by (simp add: kerr_omega_result[where ?rq1.0 = "[]" and ?rq2.0 = "[]"] split del: if_split)
  next
    case r: (Inr r)
    have im: "fst (getspline res interp ''omega'' ''im'' l m n (imomega_splines ?st') []) =
              fst (getspline res interp ''omega'' ''im'' l m n (imomega_splines st) [])"
      using Inr r
      by (simp add: kerr_omega_im_cache[where ?rq1.0 = "[]" and ?rq2.0 = "[]"] getspline_repeat)
    show ?thesis
      using Inr re im r
      by (simp add: kerr_omega_result[where ?rq1.0 = "[]" and ?rq2.0 = "[]"] split del: if_split)
  qed
qed

lemma kerr_freq_repeat:
  "fst (kerr_freq res interp mass spin l m n (snd (kerr_freq res interp mass spin l m n st))) =
   fst (kerr_freq res interp mass spin l m n st)"
proof (cases "checkspin spin")
  case (Inl e)
  then show ?thesis by (simp add: kerr_freq_def)
next
  case (Inr u)
  let ?st' = "snd (kerr_freq res interp mass spin l m n st)"
  have re: "fst (getspline res interp ''omega'' ''re'' l m n (reomega_splines ?st') []) =
            fst (getspline res interp ''omega'' ''re'' l m n (reomega_splines st) [])"
    using Inr by (simp add: kerr_freq_re_cache[where ?rq1.0 = "[]"] getspline_repeat)
  show ?thesis
    using Inr re by (simp add: kerr_freq_result[where ?rq1.0 = "[]"] split del: if_split)
qed

lemma kerr_tau_repeat:
  "fst (kerr_tau res interp mass spin l m n (snd (kerr_tau res interp mass spin l m n st))) =
   fst (kerr_tau res interp mass spin l m n st)"
proof (cases "checkspin spin")
  case (Inl e)
  then show ?thesis by (simp add: kerr_tau_def)
next
  case (Inr u)
  let ?st' = "snd (kerr_tau res interp mass spin l m n st)"
  have im: "fst (getspline res interp ''omega'' ''im'' l m n (imomega_splines ?st') []) =
            fst (getspline res interp ''omega'' ''im'' l m n (imomega_splines st) [])"
    using Inr by (simp add: kerr_tau_im_cache[where ?rq1.0 = "[]"] getspline_repeat)
  show ?thesis
    using Inr im by (simp add: kerr_tau_result[where ?rq1.0 = "[]"] split del: if_split)
qed

subsection \<open>The example table\<close>

lemma example_resource_name: "resource_name 2 = ''data/l2.hdf''"
  by code_simp

lemma example_lmn_key: "lmn_key 2 2 0 = ''220''"
  by code_simp

lemma example_mode: "mode_data example_resources 2 2 0 = Some (example_spin, example_omega)"
  by (simp add: mode_data_def example_resources_def example_resource_name example_lmn_key)

lemma example_re_at_0: "lagrange (map Re example_spin) (map Re example_omega) 0 = 37 / 100"
  by (simp add: lagrange_def example_spin_def example_omega_def)

lemma example_im_at_0: "lagrange (map Re example_spin) (map Im example_omega) 0 = - 89 / 1000"
  by (simp add: lagrange_def example_spin_def example_omega_def)

lemma initial_fits:
  "cache_fits res interp Re (reomega_splines initial) \<and>
   cache_fits res interp Im (imomega_splines initial)"
  by (simp add: initial_def cache_fits_def)

lemma create_spline_not_spin:
  "fst (create_spline res interp name reim l m n rq) \<noteq> Inl (ValueError ''|spin| must be < 0.9997'')"
  by (simp add: create_spline_def Let_def split: option.splits)

lemma getspline_not_spin:
  "fst (getspline res interp name reim l m n cache rq) \<noteq> Inl (ValueError ''|spin| must be < 0.9997'')"
proof (cases "cache (l, \<bar>m\<bar>, n)")
  case (Some s)
  then show ?thesis by (simp add: getspline_hit)
next
  case None
  then show ?thesis
    using create_spline_not_spin[of res interp name reim l m n rq]
    by (cases "create_spline res interp name reim l m n rq")
       (auto simp: getspline_def split: sum.splits)
qed

lemma create_spline_neg:
  "res (resource_name l) \<noteq> None \<Longrightarrow>
   create_spline res interp name reim l (- m) n rq = create_spline res interp name reim l m n rq"
  by (auto simp: create_spline_def Let_def lmn_key_neg split: option.splits)

lemma getspline_neg:
  "res (resource_name l) \<noteq> None \<Longrightarrow>
   getspline res interp name reim l (- m) n cache rq = getspline res interp name reim l m n cache rq"
  by (cases "cache (l, \<bar>m\<bar>, n)") (simp_all add: getspline_def create_spline_neg split: prod.splits sum.splits)

lemma mode_data_resource: "mode_data res l m n = Some d \<Longrightarrow> res (resource_name l) \<noteq> None"
  by (auto simp: mode_data_def split: option.splits)

lemma denominator_nonzero: "mass \<noteq> 0 \<Longrightarrow> 2 * pi * mass * MTSUN \<noteq> 0"
  by (simp add: MTSUN_def)

lemma sign_power: "(- 1 :: real) ^ (if m < 0 then 1 else 0 :: nat) = (if (m::int) < 0 then - 1 else 1)"
  by simp

lemma example_spin_ok: "\<bar>0 :: real\<bar> \<le> MAX_SPIN"
  by (simp add: MAX_SPIN_def)

lemma example_mode_neg: "mode_data example_resources 2 (- 2) 0 = Some (example_spin, example_omega)"
  by (simp only: mode_data_neg example_mode)

lemma kerr_omega_data:
  assumes "cache_fits res interp Re (reomega_splines st)"
    and "cache_fits res interp Im (imomega_splines st)"
    and "\<bar>spin\<bar> \<le> MAX_SPIN" and "mode_data res l m n = Some (xs, ys)"
  shows "fst (kerr_omega res interp spin l m n st) =
           Inr (Complex ((if m < 0 then - 1 else 1)
                           * interp (map Re xs) (map Re ys) (if m = 0 then \<bar>spin\<bar> else spin))
                        (interp (map Re xs) (map Im ys) (if m = 0 then \<bar>spin\<bar> else spin)))"
proof -
  have re: "fst (getspline res interp ''omega'' ''re'' l m n (reomega_splines st) []) =
      Inr (interp (map Re xs) (map Re ys))"
    using assms(4) assms(1) by (rule getspline_data_re)
  have im: "fst (getspline res interp ''omega'' ''im'' l m n (imomega_splines st) []) =
      Inr (interp (map Re xs) (map Im ys))"
    using assms(4) assms(2) by (rule getspline_data_im)
  have "fst (kerr_omega res interp spin l m n st) =
      Inr (Complex ((- 1) ^ (if m < 0 then 1 else 0 :: nat)
                      * interp (map Re xs) (map Re ys) (if m = 0 then \<bar>spin\<bar> else spin))
                   (interp (map Re xs) (map Im ys) (if m = 0 then \<bar>spin\<bar> else spin)))"
    using re im checkspin_ok[OF assms(3)]
    by (simp add: kerr_omega_result[where ?rq1.0 = "[]" and ?rq2.0 = "[]"] split del: if_split)
  then show ?thesis by (simp only: sign_power)
qed

lemma example_omega_plus:
  "fst (kerr_omega example_resources lagrange 0 2 2 0 initial) =
     Inr (Complex (37 / 100) (- 89 / 1000))"
  using kerr_omega_data[OF conjunct1[OF initial_fits] conjunct2[OF initial_fits]
      example_spin_ok example_mode]
  by (simp add: example_re_at_0 example_im_at_0)

lemma example_omega_minus:
  "fst (kerr_omega example_resources lagrange 0 2 (- 2) 0 initial) =
     Inr (Complex (- 37 / 100) (- 89 / 1000))"
  using kerr_omega_data[OF conjunct1[OF initial_fits] conjunct2[OF initial_fits]
      example_spin_ok example_mode_neg]
  by (simp add: example_re_at_0 example_im_at_0)

lemma kerr_freq_state_mass:
  "snd (kerr_freq res interp mass spin l m n st) = snd (kerr_freq res interp mass' spin l m n st)"
  by (cases "checkspin spin")
     (simp_all add: kerr_freq_def Let_def split: prod.splits sum.splits)

lemma kerr_tau_state_mass:
  "snd (kerr_tau res interp mass spin l m n st) = snd (kerr_tau res interp mass' spin l m n st)"
  by (cases "checkspin spin")
     (simp_all add: kerr_tau_def Let_def split: prod.splits sum.splits)

lemma kerr_freq_error:
  "fst (kerr_freq res interp mass spin l m n st) = Inl e \<longleftrightarrow>
     checkspin spin = Inl e \<or>
     checkspin spin = Inr () \<and>
     fst (getspline res interp ''omega'' ''re'' l m n (reomega_splines st) (requested st)) = Inl e"
  by (cases "checkspin spin";
      cases "fst (getspline res interp ''omega'' ''re'' l m n (reomega_splines st) (requested st))")
     (simp_all add: kerr_freq_result[where ?rq1.0 = "requested st"] split del: if_split)

lemma kerr_tau_error:
  "fst (kerr_tau res interp mass spin l m n st) = Inl e \<longleftrightarrow>
     checkspin spin = Inl e \<or>
     checkspin spin = Inr () \<and>
     fst (getspline res interp ''omega'' ''im'' l m n (imomega_splines st) (requested st)) = Inl e"
  by (cases "checkspin spin";
      cases "fst (getspline res interp ''omega'' ''im'' l m n (imomega_splines st) (requested st))")
     (simp_all add: kerr_tau_result[where ?rq1.0 = "requested st"] split del: if_split)

lemma kerr_freq_returns:
  assumes "\<bar>spin\<bar> \<le> MAX_SPIN" and "mode_data res l m n = Some d"
  shows "\<exists>v. fst (kerr_freq res interp mass spin l m n st) = Inr v"
proof -
  obtain r where "fst (getspline res interp ''omega'' ''re'' l m n (reomega_splines st) []) = Inr r"
    using getspline_present_re[OF assms(2)] by blast
  then show ?thesis
    using checkspin_ok[OF assms(1)]
    by (simp add: kerr_freq_result[where ?rq1.0 = "[]"] split del: if_split)
qed

lemma kerr_tau_returns:
  assumes "\<bar>spin\<bar> \<le> MAX_SPIN" and "mode_data res l m n = Some d"
  shows "\<exists>v. fst (kerr_tau res interp mass spin l m n st) = Inr v"
proof -
  obtain i where "fst (getspline res interp ''omega'' ''im'' l m n (imomega_splines st) []) = Inr i"
    using getspline_present_im[OF assms(2)] by blast
  then show ?thesis
    using checkspin_ok[OF assms(1)]
    by (simp add: kerr_tau_result[where ?rq1.0 = "[]"] split del: if_split)
qed

lemma example_freq:
  "fst (kerr_freq example_resources lagrange mass 0 2 2 0 initial) =
     Inr (np_div (37 / 100) (2 * pi * mass * MTSUN))"
proof -
  have "fst (getspline example_resources lagrange ''omega'' ''re'' 2 2 0 (reomega_splines initial) []) =
      Inr (lagrange (map Re example_spin) (map Re example_omega))"
    using example_mode conjunct1[OF initial_fits] by (rule getspline_data_re)
  then show ?thesis
    using checkspin_ok[OF example_spin_ok]
    by (simp add: kerr_freq_result[where ?rq1.0 = "[]"] example_re_at_0)
qed

lemma example_tau:
  "fst (kerr_tau example_resources lagrange mass 0 2 2 0 initial) =
     Inr (np_div (- mass * MTSUN) (- 89 / 1000))"
proof -
  have "fst (getspline example_resources lagrange ''omega'' ''im'' 2 2 0 (imomega_splines initial) []) =
      Inr (lagrange (map Re example_spin) (map Im example_omega))"
    using example_mode conjunct2[OF initial_fits] by (rule getspline_data_im)
  then show ?thesis
    using checkspin_ok[OF example_spin_ok]
    by (simp add: kerr_tau_result[where ?rq1.0 = "[]"] example_im_at_0)
qed

lemma contains_suffix: "contains (p @ x) x"
proof (induction p)
  case Nil
  show ?case by (cases x) simp_all
next
  case (Cons c p)
  then show ?case by simp
qed

lemma example_resource_name_99: "resource_name 99 = ''data/l99.hdf''"
  by code_simp

lemma example_unsupported_99: "str_int 99 @ str_int 99 @ str_int 0 = ''99990''"
  by code_simp

lemma example_no_resource_99: "example_resources (resource_name 99) = None"
  by (simp add: example_resources_def example_resource_name_99)

lemma example_selector_not_named:
  "\<not> names_mode (ValueError (''reim must be eiter 're' or 'im'' @ [CHR 0x27])) 2 2 0"
  by code_simp

lemma example_lmn_key_250: "lmn_key 2 5 0 = ''250''"
  by code_simp

lemma example_missing_group:
  "fst (create_spline example_resources lagrange ''omega'' ''re'' 2 5 0 []) = Inl (KeyError ''250'')"
  by (simp add: create_spline_def Let_def example_resources_def example_resource_name
        example_lmn_key_250)

lemma example_selector:
  "fst (create_spline example_resources lagrange ''omega'' ''xx'' 2 2 0 []) =
     Inl (ValueError (''reim must be eiter 're' or 'im'' @ [CHR 0x27]))"
  by (simp add: create_spline_def Let_def example_resources_def example_resource_name example_lmn_key)

lemma create_spline_unsupported:
  "res (resource_name l) = None \<Longrightarrow>
   fst (create_spline res interp name reim l m n rq) =
     Inl (ValueError (''unsupported lmn '' @ str_int l @ str_int m @ str_int n))"
  by (simp add: create_spline_def Let_def)

lemma create_spline_selector:
  "res (resource_name l) = Some fp \<Longrightarrow> fp (lmn_key l m n) = Some grp \<Longrightarrow>
   grp ''spin'' = Some xs \<Longrightarrow> grp name = Some ys \<Longrightarrow> reim \<noteq> ''re'' \<Longrightarrow> reim \<noteq> ''im'' \<Longrightarrow>
   fst (create_spline res interp name reim l m n rq) =
     Inl (ValueError (''reim must be eiter 're' or 'im'' @ [CHR 0x27]))"
  by (simp add: create_spline_def Let_def)

lemma reachable_no_resource:
  assumes "reachable res interp st" and "res (resource_name l) = None"
  shows "reomega_splines st (l, a, n) = None"
proof (cases "reomega_splines st (l, a, n)")
  case None
  then show ?thesis .
next
  case (Some s)
  have "cache_fits res interp Re (reomega_splines st)"
    using assms(1) reachable_fits by blast
  with Some obtain d where "mode_data res l a n = Some d"
    unfolding cache_fits_def by blast
  then have "res (resource_name l) \<noteq> None" by (rule mode_data_resource)
  with assms(2) show ?thesis by simp
qed

lemma kerr_omega_unsupported:
  assumes "reachable res interp st" and "res (resource_name l) = None" and "\<bar>spin\<bar> \<le> MAX_SPIN"
  shows "fst (kerr_omega res interp spin l m n st) =
     Inl (ValueError (''unsupported lmn '' @ str_int l @ str_int m @ str_int n))"
proof -
  have miss: "reomega_splines st (l, \<bar>m\<bar>, n) = None"
    using assms(1) assms(2) by (rule reachable_no_resource)
  have "fst (getspline res interp ''omega'' ''re'' l m n (reomega_splines st) []) =
      Inl (ValueError (''unsupported lmn '' @ str_int l @ str_int m @ str_int n))"
    using miss assms(2) create_spline_unsupported[of res l interp "''omega''" "''re''" m n "[]"]
    by (cases "create_spline res interp ''omega'' ''re'' l m n []") (simp add: getspline_def)
  then show ?thesis
    using checkspin_ok[OF assms(3)]
    by (simp add: kerr_omega_result[where ?rq1.0 = "[]" and ?rq2.0 = "[]"])
qed

lemma getspline_first:
  assumes "cache (l, \<bar>m\<bar>, n) = None"
    and "fst (create_spline res interp name reim l m n rq) = Inr s"
  shows "getspline res interp name reim l m n cache rq =
           (Inr s, cache((l, \<bar>m\<bar>, n) \<mapsto> s), rq @ [resource_name l])"
proof -
  have "create_spline res interp name reim l m n rq = (Inr s, rq @ [resource_name l])"
    using assms(2) create_spline_requested[of res interp name reim l m n rq]
    by (cases "create_spline res interp name reim l m n rq") simp
  with assms(1) show ?thesis by (rule getspline_miss)
qed

lemma public_keep_re:
  assumes "reomega_splines st k = Some s"
  shows "reomega_splines (snd (kerr_omega res interp spin l m n st)) k = Some s"
    and "reomega_splines (snd (kerr_freq res interp mass spin l m n st)) k = Some s"
    and "reomega_splines (snd (kerr_tau res interp mass spin l m n st)) k = Some s"
proof -
  show "reomega_splines (snd (kerr_omega res interp spin l m n st)) k = Some s"
    using assms kerr_omega_caches[of res interp spin l m n st]
      getspline_keeps[of "reomega_splines st" k s res interp "''omega''" "''re''" l m n "requested st"]
    by auto
  show "reomega_splines (snd (kerr_freq res interp mass spin l m n st)) k = Some s"
    using assms kerr_freq_caches[of res interp mass spin l m n st]
      getspline_keeps[of "reomega_splines st" k s res interp "''omega''" "''re''" l m n "requested st"]
    by auto
  show "reomega_splines (snd (kerr_tau res interp mass spin l m n st)) k = Some s"
    using assms kerr_tau_caches[of res interp mass spin l m n st] by simp
qed

lemma public_keep_im:
  assumes "imomega_splines st k = Some s"
  shows "imomega_splines (snd (kerr_omega res interp spin l m n st)) k = Some s"
    and "imomega_splines (snd (kerr_freq res interp mass spin l m n st)) k = Some s"
    and "imomega_splines (snd (kerr_tau res interp mass spin l m n st)) k = Some s"
proof -
  show "imomega_splines (snd (kerr_omega res interp spin l m n st)) k = Some s"
    using assms kerr_omega_caches_im[of res interp spin l m n st]
      getspline_keeps[of "imomega_splines st" k s res interp "''omega''" "''im''" l m n]
    by auto
  show "imomega_splines (snd (kerr_freq res interp mass spin l m n st)) k = Some s"
    using assms kerr_freq_caches[of res interp mass spin l m n st] by simp
  show "imomega_splines (snd (kerr_tau res interp mass spin l m n st)) k = Some s"
    using assms kerr_tau_caches[of res interp mass spin l m n st]
      getspline_keeps[of "imomega_splines st" k s res interp "''omega''" "''im''" l m n "requested st"]
    by auto
qed

lemma kerr_omega_idem:
  assumes "fst (kerr_omega res interp spin l m n st) = Inr z"
  shows "kerr_omega res interp spin l m n (snd (kerr_omega res interp spin l m n st)) =
           (Inr z, snd (kerr_omega res interp spin l m n st))"
proof -
  obtain r c rq where g1:
    "getspline res interp ''omega'' ''re'' l m n (reomega_splines st) (requested st) = (r, c, rq)"
    by (cases "getspline res interp ''omega'' ''re'' l m n (reomega_splines st) (requested st)")
  obtain r' c' rq' where g2:
    "getspline res interp ''omega'' ''im'' l m n (imomega_splines st) rq = (r', c', rq')"
    by (cases "getspline res interp ''omega'' ''im'' l m n (imomega_splines st) rq")
  have ok: "checkspin spin = Inr ()"
    using assms by (cases "checkspin spin") (simp_all add: kerr_omega_def)
  obtain s where r: "r = Inr s"
    using assms ok g1 by (cases r) (simp_all add: kerr_omega_def)
  obtain s' where r': "r' = Inr s'"
    using assms ok g1 g2 r by (cases r') (simp_all add: kerr_omega_def)
  let ?st1 = "st\<lparr>reomega_splines := c, imomega_splines := c', requested := rq'\<rparr>"
  let ?z = "Complex ((- 1) ^ (if m < 0 then 1 else 0 :: nat) * s (if m = 0 then \<bar>spin\<bar> else spin))
                    (s' (if m = 0 then \<bar>spin\<bar> else spin))"
  have first: "kerr_omega res interp spin l m n st = (Inr ?z, ?st1)"
    using ok g1 g2 r r' by (simp add: kerr_omega_def Let_def split del: if_split)
  have z: "z = ?z" using assms first by simp
  have hit1: "c (l, \<bar>m\<bar>, n) = Some s"
    using getspline_ok g1 r by blast
  have hit2: "c' (l, \<bar>m\<bar>, n) = Some s'"
    using getspline_ok g2 r' by blast
  have h1: "getspline res interp ''omega'' ''re'' l m n c rq' = (Inr s, c, rq')"
    using hit1 by (rule getspline_hit)
  have h2: "getspline res interp ''omega'' ''im'' l m n c' rq' = (Inr s', c', rq')"
    using hit2 by (rule getspline_hit)
  have second: "kerr_omega res interp spin l m n ?st1 = (Inr ?z, ?st1)"
    using ok h1 h2 by (simp add: kerr_omega_def Let_def split del: if_split)
  show ?thesis using first second z by simp
qed

lemma kerr_freq_idem:
  assumes "fst (kerr_freq res interp mass spin l m n st) = Inr v"
  shows "kerr_freq res interp mass spin l m n (snd (kerr_freq res interp mass spin l m n st)) =
           (Inr v, snd (kerr_freq res interp mass spin l m n st))"
proof -
  obtain r c rq where g1:
    "getspline res interp ''omega'' ''re'' l m n (reomega_splines st) (requested st) = (r, c, rq)"
    by (cases "getspline res interp ''omega'' ''re'' l m n (reomega_splines st) (requested st)")
  have ok: "checkspin spin = Inr ()"
    using assms by (cases "checkspin spin") (simp_all add: kerr_freq_def)
  obtain s where r: "r = Inr s"
    using assms ok g1 by (cases r) (simp_all add: kerr_freq_def)
  let ?st1 = "st\<lparr>reomega_splines := c, requested := rq\<rparr>"
  let ?v = "np_div ((- 1) ^ (if m < 0 then 1 else 0 :: nat) * s (if m = 0 then \<bar>spin\<bar> else spin))
                   (2 * pi * mass * MTSUN)"
  have first: "kerr_freq res interp mass spin l m n st = (Inr ?v, ?st1)"
    using ok g1 r by (simp add: kerr_freq_def Let_def split del: if_split)
  have v: "v = ?v" using assms first by simp
  have hit1: "c (l, \<bar>m\<bar>, n) = Some s"
    using getspline_ok g1 r by blast
  have h1: "getspline res interp ''omega'' ''re'' l m n c rq = (Inr s, c, rq)"
    using hit1 by (rule getspline_hit)
  have second: "kerr_freq res interp mass spin l m n ?st1 = (Inr ?v, ?st1)"
    using ok h1 by (simp add: kerr_freq_def Let_def split del: if_split)
  show ?thesis using first second v by simp
qed

lemma kerr_tau_idem:
  assumes "fst (kerr_tau res interp mass spin l m n st) = Inr v"
  shows "kerr_tau res interp mass spin l m n (snd (kerr_tau res interp mass spin l m n st)) =
           (Inr v, snd (kerr_tau res interp mass spin l m n st))"
proof -
  obtain r c rq where g1:
    "getspline res interp ''omega'' ''im'' l m n (imomega_splines st) (requested st) = (r, c, rq)"
    by (cases "getspline res interp ''omega'' ''im'' l m n (imomega_splines st) (requested st)")
  have ok: "checkspin spin = Inr ()"
    using assms by (cases "checkspin spin") (simp_all add: kerr_tau_def)
  obtain s where r: "r = Inr s"
    using assms ok g1 by (cases r) (simp_all add: kerr_tau_def)
  let ?st1 = "st\<lparr>imomega_splines := c, requested := rq\<rparr>"
  let ?v = "np_div (- mass * MTSUN) (s (if m = 0 then \<bar>spin\<bar> else spin))"
  have first: "kerr_tau res interp mass spin l m n st = (Inr ?v, ?st1)"
    using ok g1 r by (simp add: kerr_tau_def Let_def split del: if_split)
  have v: "v = ?v" using assms first by simp
  have hit1: "c (l, \<bar>m\<bar>, n) = Some s"
    using getspline_ok g1 r by blast
  have h1: "getspline res interp ''omega'' ''im'' l m n c rq = (Inr s, c, rq)"
    using hit1 by (rule getspline_hit)
  have second: "kerr_tau res interp mass spin l m n ?st1 = (Inr ?v, ?st1)"
    using ok h1 by (simp add: kerr_tau_def Let_def split del: if_split)
  show ?thesis using first second v by simp
qed

lemma example_create_re:
  "create_spline example_resources lagrange ''omega'' ''re'' 2 2 0 rq =
     (Inr example_re_spline, rq @ [''data/l2.hdf''])"
  using create_spline_re[OF example_mode, of lagrange rq]
  by (simp add: example_re_spline_def example_resource_name)

lemma example_create_im:
  "create_spline example_resources lagrange ''omega'' ''im'' 2 2 0 rq =
     (Inr example_im_spline, rq @ [''data/l2.hdf''])"
  using create_spline_im[OF example_mode, of lagrange rq]
  by (simp add: example_im_spline_def example_resource_name)

lemma example_first_call:
  "kerr_omega example_resources lagrange 0 2 2 0 initial =
     (Inr (Complex (37 / 100) (- 89 / 1000)), example_loaded)"
proof -
  have re: "getspline example_resources lagrange ''omega'' ''re'' 2 2 0 Map.empty [] =
      (Inr example_re_spline, [(2, 2, 0) \<mapsto> example_re_spline], [''data/l2.hdf''])"
    by (simp add: getspline_def example_create_re)
  have im: "getspline example_resources lagrange ''omega'' ''im'' 2 2 0 Map.empty [''data/l2.hdf''] =
      (Inr example_im_spline, [(2, 2, 0) \<mapsto> example_im_spline], [''data/l2.hdf'', ''data/l2.hdf''])"
    by (simp add: getspline_def example_create_im)
  have re0: "example_re_spline 0 = 37 / 100"
    by (simp add: example_re_spline_def example_re_at_0)
  have im0: "example_im_spline 0 = - 89 / 1000"
    by (simp add: example_im_spline_def example_im_at_0)
  show ?thesis
    using checkspin_ok[OF example_spin_ok] re im re0 im0
    by (simp add: kerr_omega_def initial_def example_loaded_def)
qed

lemma example_lmn_key_200: "lmn_key 2 0 0 = ''200''"
  by code_simp

lemma example_mode_m0: "mode_data example_resources_m0 2 0 0 = Some (example_spin, example_omega)"
  by (simp add: mode_data_def example_resources_m0_def example_resource_name example_lmn_key_200)

lemma example_re_at_half: "lagrange (map Re example_spin) (map Re example_omega) (1 / 2) = 46 / 100"
  by (simp add: lagrange_def example_spin_def example_omega_def)

lemma example_im_at_half: "lagrange (map Re example_spin) (map Im example_omega) (1 / 2) = - 86 / 1000"
  by (simp add: lagrange_def example_spin_def example_omega_def)

lemma example_re_at_minus_half:
  "lagrange (map Re example_spin) (map Re example_omega) (- 1 / 2) = 32 / 100"
  by (simp add: lagrange_def example_spin_def example_omega_def)

section \<open>The claims\<close>

text \<open>
  Claim C9. When \<^verbatim>\<open>kerr_omega\<close>, \<^verbatim>\<open>kerr_freq\<close> or \<^verbatim>\<open>kerr_tau\<close> fails because
  \<open>|spin| > MAX_SPIN\<close>, the state is the one before the call: neither cache has gained
  or changed an entry and no resource has been requested, because the spin is checked
  before any lookup.
\<close>

theorem spin_error_leaves_state:
  "\<bar>spin\<bar> > MAX_SPIN \<Longrightarrow>
   snd (kerr_omega res interp spin l m n st) = st \<and>
   snd (kerr_freq res interp mass spin l m n st) = st \<and>
   snd (kerr_tau res interp mass spin l m n st) = st"
  by (simp add: kerr_omega_def kerr_freq_def kerr_tau_def checkspin_bad)

theorem spin_error_leaves_state_witness:
  "\<bar>1 :: real\<bar> > MAX_SPIN \<and>
   snd (kerr_omega example_resources lagrange 1 2 2 0 initial) = initial \<and>
   snd (kerr_freq example_resources lagrange 10 1 2 2 0 initial) = initial \<and>
   snd (kerr_tau example_resources lagrange 10 1 2 2 0 initial) = initial"
proof -
  have h: "\<bar>1 :: real\<bar> > MAX_SPIN" by (simp add: MAX_SPIN_def)
  show ?thesis
    using h spin_error_leaves_state[OF h, of example_resources lagrange 2 2 0 initial 10] by simp
qed

text \<open>
  Claim C3. Each of \<^verbatim>\<open>kerr_omega\<close>, \<^verbatim>\<open>kerr_freq\<close> and \<^verbatim>\<open>kerr_tau\<close> fails with the
  out-of-range-spin error exactly when \<open>|spin| > MAX_SPIN = 0.9997\<close>; the text of the
  error states the bound; the spin \<open>0.9997\<close> passes the check and \<open>0.9998\<close> does not.
\<close>

theorem spin_bound_checked:
  "(fst (kerr_omega res interp spin l m n st) = Inl (ValueError ''|spin| must be < 0.9997'')
      \<longleftrightarrow> \<bar>spin\<bar> > MAX_SPIN) \<and>
   (fst (kerr_freq res interp mass spin l m n st) = Inl (ValueError ''|spin| must be < 0.9997'')
      \<longleftrightarrow> \<bar>spin\<bar> > MAX_SPIN) \<and>
   (fst (kerr_tau res interp mass spin l m n st) = Inl (ValueError ''|spin| must be < 0.9997'')
      \<longleftrightarrow> \<bar>spin\<bar> > MAX_SPIN) \<and>
   MAX_SPIN = 9997 / 10000 \<and>
   checkspin (9997 / 10000) = Inr () \<and>
   checkspin (9998 / 10000) = Inl (ValueError ''|spin| must be < 0.9997'')"
proof -
  let ?e = "Inl (ValueError ''|spin| must be < 0.9997'')"
  have re: "fst (getspline res interp ''omega'' ''re'' l m n (reomega_splines st) []) \<noteq> ?e"
    by (rule getspline_not_spin)
  have im: "fst (getspline res interp ''omega'' ''im'' l m n (imomega_splines st) []) \<noteq> ?e"
    by (rule getspline_not_spin)
  have omega: "fst (kerr_omega res interp spin l m n st) = ?e \<longleftrightarrow> \<bar>spin\<bar> > MAX_SPIN"
    using re im
    by (cases "\<bar>spin\<bar> > MAX_SPIN")
       (auto simp: kerr_omega_result[where ?rq1.0 = "[]" and ?rq2.0 = "[]"] checkspin_def
             split: sum.splits)
  have freq: "fst (kerr_freq res interp mass spin l m n st) = ?e \<longleftrightarrow> \<bar>spin\<bar> > MAX_SPIN"
    using re
    by (cases "\<bar>spin\<bar> > MAX_SPIN")
       (auto simp: kerr_freq_result[where ?rq1.0 = "[]"] checkspin_def split: sum.splits)
  have tau: "fst (kerr_tau res interp mass spin l m n st) = ?e \<longleftrightarrow> \<bar>spin\<bar> > MAX_SPIN"
    using im
    by (cases "\<bar>spin\<bar> > MAX_SPIN")
       (auto simp: kerr_tau_result[where ?rq1.0 = "[]"] checkspin_def split: sum.splits)
  have bound: "MAX_SPIN = 9997 / 10000 \<and> checkspin (9997 / 10000) = Inr () \<and>
      checkspin (9998 / 10000) = ?e"
    by (simp add: checkspin_def MAX_SPIN_def)
  show ?thesis using omega freq tau bound by blast
qed

text \<open>
  Claim C5. For a nonzero mass, a spin within the bound and a mode with data,
  \<^verbatim>\<open>kerr_freq\<close> returns \<open>sign * Re_interpolant(effective_spin) / (2 * pi * mass * MTSUN)\<close>
  with \<open>MTSUN = 4.925491025543576e-06\<close>, the sign \<open>-1\<close> for \<open>m < 0\<close> and \<open>+1\<close> otherwise,
  and the effective spin \<open>|spin|\<close> for \<open>m = 0\<close> and the spin otherwise. Only the real-part
  interpolant is used: the imaginary-part cache is neither read nor written.
\<close>

theorem kerr_freq_value:
  assumes "reachable res interp st" and "\<bar>spin\<bar> \<le> MAX_SPIN"
    and "mode_data res l m n = Some (xs, ys)" and "mass \<noteq> 0"
  shows "fst (kerr_freq res interp mass spin l m n st) =
           Inr (Finite ((if m < 0 then - 1 else 1)
                          * interp (map Re xs) (map Re ys) (if m = 0 then \<bar>spin\<bar> else spin)
                        / (2 * pi * mass * MTSUN))) \<and>
         MTSUN = 4925491025543576 / 10 ^ 21 \<and>
         imomega_splines (snd (kerr_freq res interp mass spin l m n st)) = imomega_splines st \<and>
         fst (kerr_freq res interp mass spin l m n (st\<lparr>imomega_splines := c\<rparr>)) =
           fst (kerr_freq res interp mass spin l m n st)"
proof -
  have fits: "cache_fits res interp Re (reomega_splines st)"
    using assms(1) reachable_fits by blast
  have spline: "fst (getspline res interp ''omega'' ''re'' l m n (reomega_splines st) []) =
      Inr (interp (map Re xs) (map Re ys))"
    using assms(3) fits by (rule getspline_data_re)
  have "fst (kerr_freq res interp mass spin l m n st) =
      Inr (np_div ((- 1) ^ (if m < 0 then 1 else 0 :: nat)
                     * interp (map Re xs) (map Re ys) (if m = 0 then \<bar>spin\<bar> else spin))
                  (2 * pi * mass * MTSUN))"
    using spline checkspin_ok[OF assms(2)]
    by (simp add: kerr_freq_result[where ?rq1.0 = "[]"] split del: if_split)
  then have val: "fst (kerr_freq res interp mass spin l m n st) =
      Inr (Finite ((if m < 0 then - 1 else 1)
                     * interp (map Re xs) (map Re ys) (if m = 0 then \<bar>spin\<bar> else spin)
                   / (2 * pi * mass * MTSUN)))"
    using denominator_nonzero[OF assms(4)] by (simp only: np_div_def sign_power if_False)
  have im: "imomega_splines (snd (kerr_freq res interp mass spin l m n st)) = imomega_splines st"
    using kerr_freq_caches by blast
  have other: "fst (kerr_freq res interp mass spin l m n (st\<lparr>imomega_splines := c\<rparr>)) =
      fst (kerr_freq res interp mass spin l m n st)"
    by (simp add: kerr_freq_result[where ?rq1.0 = "[]"] split del: if_split cong: sum.case_cong)
  show ?thesis using val im other by (simp add: MTSUN_def)
qed

theorem kerr_freq_value_witness:
  "reachable example_resources lagrange initial \<and> \<bar>0 :: real\<bar> \<le> MAX_SPIN \<and>
   mode_data example_resources 2 (- 2) 0 = Some (example_spin, example_omega) \<and> (10 :: real) \<noteq> 0 \<and>
   fst (kerr_freq example_resources lagrange 10 0 2 (- 2) 0 initial) =
     Inr (Finite (- (37 / 100) / (2 * pi * 10 * MTSUN)))"
proof -
  have r: "reachable example_resources lagrange initial" by (rule reachable.start)
  have s: "\<bar>0 :: real\<bar> \<le> MAX_SPIN" by (simp add: MAX_SPIN_def)
  have d: "mode_data example_resources 2 (- 2) 0 = Some (example_spin, example_omega)"
    by (simp only: mode_data_neg example_mode)
  have m: "(10 :: real) \<noteq> 0" by simp
  show ?thesis
    using r s d m kerr_freq_value[OF r s d m] by (simp add: example_re_at_0)
qed

text \<open>
  Claim C4. For a spin within the bound and a mode with data, \<^verbatim>\<open>kerr_tau\<close> returns
  \<open>- mass * MTSUN / Im_interpolant(effective_spin)\<close>, the division being that of the
  numerical library, with the effective spin \<open>|spin|\<close> for \<open>m = 0\<close> and the spin
  otherwise, and with no sign for \<open>m < 0\<close>; the call for \<open>- m\<close> equals the call for \<open>m\<close>.
\<close>

theorem kerr_tau_value:
  assumes "reachable res interp st" and "\<bar>spin\<bar> \<le> MAX_SPIN"
    and "mode_data res l m n = Some (xs, ys)"
  shows "fst (kerr_tau res interp mass spin l m n st) =
           Inr (if interp (map Re xs) (map Im ys) (if m = 0 then \<bar>spin\<bar> else spin) = 0
                then NonFinite
                else Finite (- mass * MTSUN
                             / interp (map Re xs) (map Im ys) (if m = 0 then \<bar>spin\<bar> else spin))) \<and>
         kerr_tau res interp mass spin l (- m) n st = kerr_tau res interp mass spin l m n st"
proof -
  have fits: "cache_fits res interp Im (imomega_splines st)"
    using assms(1) reachable_fits by blast
  have spline: "fst (getspline res interp ''omega'' ''im'' l m n (imomega_splines st) []) =
      Inr (interp (map Re xs) (map Im ys))"
    using assms(3) fits by (rule getspline_data_im)
  have val: "fst (kerr_tau res interp mass spin l m n st) =
      Inr (np_div (- mass * MTSUN)
                  (interp (map Re xs) (map Im ys) (if m = 0 then \<bar>spin\<bar> else spin)))"
    using spline checkspin_ok[OF assms(2)]
    by (simp add: kerr_tau_result[where ?rq1.0 = "[]"] split del: if_split)
  have "res (resource_name l) \<noteq> None"
    using assms(3) by (rule mode_data_resource)
  then have mirror: "kerr_tau res interp mass spin l (- m) n st = kerr_tau res interp mass spin l m n st"
    by (cases "checkspin spin")
       (simp_all add: kerr_tau_def getspline_neg Let_def split: prod.splits sum.splits)
  show ?thesis using val mirror by (simp only: np_div_def)
qed

theorem kerr_tau_value_witness:
  "reachable example_resources lagrange initial \<and> \<bar>0 :: real\<bar> \<le> MAX_SPIN \<and>
   mode_data example_resources 2 2 0 = Some (example_spin, example_omega) \<and>
   fst (kerr_tau example_resources lagrange 10 0 2 2 0 initial) =
     Inr (Finite (- 10 * MTSUN / (- 89 / 1000))) \<and>
   fst (kerr_tau example_resources lagrange 10 0 2 (- 2) 0 initial) =
     Inr (Finite (- 10 * MTSUN / (- 89 / 1000)))"
proof -
  have r: "reachable example_resources lagrange initial" by (rule reachable.start)
  have s: "\<bar>0 :: real\<bar> \<le> MAX_SPIN" by (simp add: MAX_SPIN_def)
  have d: "mode_data example_resources 2 2 0 = Some (example_spin, example_omega)"
    by (rule example_mode)
  show ?thesis
    using r s d kerr_tau_value[OF r s d, of 10] by (simp add: example_im_at_0)
qed

text \<open>
  Claim C1, as the specification states it: for \<open>m < 0\<close> both the real and the imaginary
  part of the interpolated \<open>omega\<close> are negated, so that the imaginary parts of
  \<^verbatim>\<open>kerr_omega\<close> for \<open>- m\<close> and for \<open>m\<close> are opposite. On the example table, at spin \<open>0\<close>
  and the mode \<open>(2, 2, 0)\<close>, they are equal and not zero.
\<close>

theorem kerr_omega_imag_negated_counterexample:
  "fst (kerr_omega example_resources lagrange 0 2 2 0 initial) =
     Inr (Complex (37 / 100) (- 89 / 1000)) \<and>
   fst (kerr_omega example_resources lagrange 0 2 (- 2) 0 initial) =
     Inr (Complex (- 37 / 100) (- 89 / 1000)) \<and>
   Im (Complex (- 37 / 100) (- 89 / 1000)) \<noteq> - Im (Complex (37 / 100) (- 89 / 1000))"
  using example_omega_plus example_omega_minus by simp

text \<open>
  Claim C1, amended: for a spin within the bound and a mode with \<open>m \<noteq> 0\<close> and data,
  \<^verbatim>\<open>kerr_omega\<close> negates the real part of the interpolated \<open>omega\<close> when \<open>m < 0\<close> and
  leaves the imaginary part as interpolated; the values for \<open>- m\<close> and \<open>m\<close> have opposite
  real parts and the same imaginary part.
\<close>

theorem kerr_omega_mirror_mode:
  assumes "reachable res interp st" and "\<bar>spin\<bar> \<le> MAX_SPIN" and "m \<noteq> 0"
    and "mode_data res l m n = Some (xs, ys)"
  shows "fst (kerr_omega res interp spin l m n st) =
           Inr (Complex ((if m < 0 then - 1 else 1) * interp (map Re xs) (map Re ys) spin)
                        (interp (map Re xs) (map Im ys) spin)) \<and>
         fst (kerr_omega res interp spin l (- m) n st) =
           Inr (Complex (- ((if m < 0 then - 1 else 1) * interp (map Re xs) (map Re ys) spin))
                        (interp (map Re xs) (map Im ys) spin))"
proof -
  have fits: "cache_fits res interp Re (reomega_splines st)"
    "cache_fits res interp Im (imomega_splines st)"
    using assms(1) reachable_fits by blast+
  have d: "mode_data res l (- m) n = Some (xs, ys)"
    using assms(4) by (simp only: mode_data_neg)
  have plus: "fst (kerr_omega res interp spin l m n st) =
      Inr (Complex ((if m < 0 then - 1 else 1) * interp (map Re xs) (map Re ys) spin)
                   (interp (map Re xs) (map Im ys) spin))"
    using kerr_omega_data[OF fits assms(2) assms(4)] assms(3) by simp
  have minus: "fst (kerr_omega res interp spin l (- m) n st) =
      Inr (Complex (- ((if m < 0 then - 1 else 1) * interp (map Re xs) (map Re ys) spin))
                   (interp (map Re xs) (map Im ys) spin))"
    using kerr_omega_data[OF fits assms(2) d] assms(3) by simp
  show ?thesis using plus minus by blast
qed

theorem kerr_omega_mirror_mode_witness:
  "reachable example_resources lagrange initial \<and> \<bar>0 :: real\<bar> \<le> MAX_SPIN \<and> (2 :: int) \<noteq> 0 \<and>
   mode_data example_resources 2 2 0 = Some (example_spin, example_omega) \<and>
   fst (kerr_omega example_resources lagrange 0 2 2 0 initial) =
     Inr (Complex (37 / 100) (- 89 / 1000)) \<and>
   fst (kerr_omega example_resources lagrange 0 2 (- 2) 0 initial) =
     Inr (Complex (- (37 / 100)) (- 89 / 1000))"
proof -
  have r: "reachable example_resources lagrange initial" by (rule reachable.start)
  have m: "(2 :: int) \<noteq> 0" by simp
  show ?thesis
    using r example_spin_ok m example_mode
      kerr_omega_mirror_mode[OF r example_spin_ok m example_mode]
    by (simp add: example_re_at_0 example_im_at_0)
qed

text \<open>
  Claim C8. For a nonzero mass, a spin within the bound and a mode with data,
  \<^verbatim>\<open>kerr_freq\<close> returns the real part of what \<^verbatim>\<open>kerr_omega\<close> returns, divided by
  \<open>2 * pi * mass * MTSUN\<close>: from the same state, and also when either function is called
  after the other.
\<close>

theorem kerr_freq_from_kerr_omega:
  assumes "mass \<noteq> 0" and "\<bar>spin\<bar> \<le> MAX_SPIN" and "mode_data res l m n = Some d"
  shows "\<exists>z. fst (kerr_omega res interp spin l m n st) = Inr z \<and>
             fst (kerr_freq res interp mass spin l m n st) =
               Inr (Finite (Re z / (2 * pi * mass * MTSUN))) \<and>
             fst (kerr_freq res interp mass spin l m n (snd (kerr_omega res interp spin l m n st))) =
               Inr (Finite (Re z / (2 * pi * mass * MTSUN))) \<and>
             fst (kerr_omega res interp spin l m n (snd (kerr_freq res interp mass spin l m n st))) =
               Inr z"
proof -
  let ?eff = "if m = 0 then \<bar>spin\<bar> else spin"
  let ?sign = "(- 1 :: real) ^ (if m < 0 then 1 else 0 :: nat)"
  let ?st1 = "snd (kerr_omega res interp spin l m n st)"
  let ?st2 = "snd (kerr_freq res interp mass spin l m n st)"
  obtain r where r: "fst (getspline res interp ''omega'' ''re'' l m n (reomega_splines st) []) = Inr r"
    using getspline_present_re[OF assms(3)] by blast
  obtain i where i: "fst (getspline res interp ''omega'' ''im'' l m n (imomega_splines st) []) = Inr i"
    using getspline_present_im[OF assms(3)] by blast
  note ok = checkspin_ok[OF assms(2)]
  note den = denominator_nonzero[OF assms(1)]
  have omega: "fst (kerr_omega res interp spin l m n st) = Inr (Complex (?sign * r ?eff) (i ?eff))"
    using r i ok
    by (simp add: kerr_omega_result[where ?rq1.0 = "[]" and ?rq2.0 = "[]"] split del: if_split)
  have freq: "fst (kerr_freq res interp mass spin l m n st) =
      Inr (Finite (?sign * r ?eff / (2 * pi * mass * MTSUN)))"
    using r ok den
    by (simp add: kerr_freq_result[where ?rq1.0 = "[]"] np_div_def split del: if_split)
  have r1: "fst (getspline res interp ''omega'' ''re'' l m n (reomega_splines ?st1) []) = Inr r"
    using r ok by (simp add: kerr_omega_re_cache[where ?rq1.0 = "[]"] getspline_repeat)
  have freq1: "fst (kerr_freq res interp mass spin l m n ?st1) =
      Inr (Finite (?sign * r ?eff / (2 * pi * mass * MTSUN)))"
    using r1 ok den
    by (simp add: kerr_freq_result[where ?rq1.0 = "[]"] np_div_def split del: if_split)
  have r2: "fst (getspline res interp ''omega'' ''re'' l m n (reomega_splines ?st2) []) = Inr r"
    using r ok by (simp add: kerr_freq_re_cache[where ?rq1.0 = "[]"] getspline_repeat)
  have i2: "imomega_splines ?st2 = imomega_splines st"
    using kerr_freq_caches by blast
  have omega2: "fst (kerr_omega res interp spin l m n ?st2) = Inr (Complex (?sign * r ?eff) (i ?eff))"
    using r2 i ok
    by (simp add: kerr_omega_result[where ?rq1.0 = "[]" and ?rq2.0 = "[]"] i2 split del: if_split)
  show ?thesis
    using omega freq freq1 omega2 by simp
qed

theorem kerr_freq_from_kerr_omega_witness:
  "(10 :: real) \<noteq> 0 \<and> \<bar>0 :: real\<bar> \<le> MAX_SPIN \<and>
   mode_data example_resources 2 2 0 = Some (example_spin, example_omega) \<and>
   fst (kerr_omega example_resources lagrange 0 2 2 0 initial) =
     Inr (Complex (37 / 100) (- 89 / 1000)) \<and>
   fst (kerr_freq example_resources lagrange 10 0 2 2 0 initial) =
     Inr (Finite (37 / 100 / (2 * pi * 10 * MTSUN)))"
proof -
  have m: "(10 :: real) \<noteq> 0" by simp
  obtain z where z: "fst (kerr_omega example_resources lagrange 0 2 2 0 initial) = Inr z"
    and f: "fst (kerr_freq example_resources lagrange 10 0 2 2 0 initial) =
      Inr (Finite (Re z / (2 * pi * 10 * MTSUN)))"
    using kerr_freq_from_kerr_omega[OF m example_spin_ok example_mode, of lagrange initial]
    by blast
  have "z = Complex (37 / 100) (- 89 / 1000)"
    using z example_omega_plus by simp
  then show ?thesis
    using m example_spin_ok example_mode z f by simp
qed

text \<open>
  Claim C10. \<^verbatim>\<open>kerr_freq\<close> and \<^verbatim>\<open>kerr_tau\<close> do not validate the mass. The state they
  leave and whether they fail, and with which error, are the same for any two masses;
  they fail exactly when the spin check fails or the spline cannot be had; and for a
  spin within the bound and a mode with data they return a value for every mass, zero
  and negative ones included.
\<close>

theorem mass_not_validated:
  "snd (kerr_freq res interp mass spin l m n st) = snd (kerr_freq res interp mass' spin l m n st) \<and>
   snd (kerr_tau res interp mass spin l m n st) = snd (kerr_tau res interp mass' spin l m n st) \<and>
   (fst (kerr_freq res interp mass spin l m n st) = Inl e \<longleftrightarrow>
      fst (kerr_freq res interp mass' spin l m n st) = Inl e) \<and>
   (fst (kerr_tau res interp mass spin l m n st) = Inl e \<longleftrightarrow>
      fst (kerr_tau res interp mass' spin l m n st) = Inl e) \<and>
   (fst (kerr_freq res interp mass spin l m n st) = Inl e \<longleftrightarrow>
      checkspin spin = Inl e \<or>
      checkspin spin = Inr () \<and>
      fst (getspline res interp ''omega'' ''re'' l m n (reomega_splines st) (requested st)) = Inl e) \<and>
   (fst (kerr_tau res interp mass spin l m n st) = Inl e \<longleftrightarrow>
      checkspin spin = Inl e \<or>
      checkspin spin = Inr () \<and>
      fst (getspline res interp ''omega'' ''im'' l m n (imomega_splines st) (requested st)) = Inl e) \<and>
   (\<bar>spin\<bar> \<le> MAX_SPIN \<and> mode_data res l m n \<noteq> None \<longrightarrow>
      (\<exists>v w. fst (kerr_freq res interp mass spin l m n st) = Inr v \<and>
             fst (kerr_tau res interp mass spin l m n st) = Inr w))"
proof -
  have s1: "snd (kerr_freq res interp mass spin l m n st) = snd (kerr_freq res interp mass' spin l m n st)"
    by (rule kerr_freq_state_mass)
  have s2: "snd (kerr_tau res interp mass spin l m n st) = snd (kerr_tau res interp mass' spin l m n st)"
    by (rule kerr_tau_state_mass)
  have e1: "fst (kerr_freq res interp mass spin l m n st) = Inl e \<longleftrightarrow>
      fst (kerr_freq res interp mass' spin l m n st) = Inl e"
    by (simp only: kerr_freq_error)
  have e2: "fst (kerr_tau res interp mass spin l m n st) = Inl e \<longleftrightarrow>
      fst (kerr_tau res interp mass' spin l m n st) = Inl e"
    by (simp only: kerr_tau_error)
  have v: "\<bar>spin\<bar> \<le> MAX_SPIN \<and> mode_data res l m n \<noteq> None \<longrightarrow>
      (\<exists>v w. fst (kerr_freq res interp mass spin l m n st) = Inr v \<and>
             fst (kerr_tau res interp mass spin l m n st) = Inr w)"
    using kerr_freq_returns kerr_tau_returns by (metis not_Some_eq)
  show ?thesis
    using s1 s2 e1 e2 v kerr_freq_error[of res interp mass spin l m n st e]
      kerr_tau_error[of res interp mass spin l m n st e]
    by blast
qed

theorem mass_not_validated_witness:
  "\<bar>0 :: real\<bar> \<le> MAX_SPIN \<and> mode_data example_resources 2 2 0 \<noteq> None \<and>
   (\<exists>v w. fst (kerr_freq example_resources lagrange 0 0 2 2 0 initial) = Inr v \<and>
          fst (kerr_tau example_resources lagrange 0 0 2 2 0 initial) = Inr w) \<and>
   fst (kerr_freq example_resources lagrange 0 0 2 2 0 initial) = Inr NonFinite \<and>
   fst (kerr_tau example_resources lagrange 0 0 2 2 0 initial) = Inr (Finite 0) \<and>
   fst (kerr_freq example_resources lagrange (- 1) 0 2 2 0 initial) =
     Inr (Finite (- (37 / 100) / (2 * pi * MTSUN))) \<and>
   fst (kerr_tau example_resources lagrange (- 1) 0 2 2 0 initial) =
     Inr (Finite (- MTSUN / (89 / 1000)))"
proof -
  have d: "mode_data example_resources 2 2 0 \<noteq> None" by (simp add: example_mode)
  have ex: "\<exists>v w. fst (kerr_freq example_resources lagrange 0 0 2 2 0 initial) = Inr v \<and>
          fst (kerr_tau example_resources lagrange 0 0 2 2 0 initial) = Inr w"
    using mass_not_validated[of example_resources lagrange 0 0 2 2 0 initial] example_spin_ok d
    by blast
  have f0: "fst (kerr_freq example_resources lagrange 0 0 2 2 0 initial) = Inr NonFinite"
    by (simp add: example_freq np_div_def)
  have t0: "fst (kerr_tau example_resources lagrange 0 0 2 2 0 initial) = Inr (Finite 0)"
    by (simp add: example_tau np_div_def)
  have f1: "fst (kerr_freq example_resources lagrange (- 1) 0 2 2 0 initial) =
     Inr (Finite (- (37 / 100) / (2 * pi * MTSUN)))"
    by (simp add: example_freq np_div_def MTSUN_def)
  have t1: "fst (kerr_tau example_resources lagrange (- 1) 0 2 2 0 initial) =
     Inr (Finite (- MTSUN / (89 / 1000)))"
    by (simp add: example_tau np_div_def MTSUN_def)
  show ?thesis
    using example_spin_ok d ex f0 t0 f1 t1 by blast
qed

text \<open>
  Claim C2, as the specification states it: in each of its failures, an invalid
  component selector among them, \<^verbatim>\<open>_create_spline\<close> raises an error that names the
  requested \<open>(l, m, n)\<close>. On the example table the selector \<^verbatim>\<open>xx\<close> for the mode
  \<open>(2, 2, 0)\<close> gives an error whose text does not contain \<^verbatim>\<open>220\<close>.
\<close>

theorem create_spline_selector_error_counterexample:
  "fst (create_spline example_resources lagrange ''omega'' ''xx'' 2 2 0 []) =
     Inl (ValueError (''reim must be eiter 're' or 'im'' @ [CHR 0x27])) \<and>
   \<not> names_mode (ValueError (''reim must be eiter 're' or 'im'' @ [CHR 0x27])) 2 2 0"
  using example_selector example_selector_not_named by blast

text \<open>
  Claim C2, amended: when there is no data resource for \<open>l\<close>, \<^verbatim>\<open>_create_spline\<close> fails
  with the error \<^verbatim>\<open>unsupported lmn\<close> followed by \<open>l\<close>, \<open>m\<close> and \<open>n\<close>, which names the mode;
  when the resource, the group of \<open>(l, |m|, n)\<close> and its arrays are there and the
  selector is neither \<^verbatim>\<open>re\<close> nor \<^verbatim>\<open>im\<close>, it fails with an error about the selector;
  and \<^verbatim>\<open>kerr_omega(0.1, 99, 99, 0)\<close> fails with \<^verbatim>\<open>unsupported lmn 99990\<close> when there is no
  resource for \<open>l = 99\<close>.
\<close>

theorem create_spline_failures:
  "(res (resource_name l) = None \<longrightarrow>
      fst (create_spline res interp name reim l m n rq) =
        Inl (ValueError (''unsupported lmn '' @ str_int l @ str_int m @ str_int n)) \<and>
      names_mode (ValueError (''unsupported lmn '' @ str_int l @ str_int m @ str_int n)) l m n) \<and>
   (res (resource_name l) = Some fp \<and> fp (lmn_key l m n) = Some grp \<and>
    grp ''spin'' = Some xs \<and> grp name = Some ys \<and> reim \<noteq> ''re'' \<and> reim \<noteq> ''im'' \<longrightarrow>
      fst (create_spline res interp name reim l m n rq) =
        Inl (ValueError (''reim must be eiter 're' or 'im'' @ [CHR 0x27]))) \<and>
   (reachable res interp st \<and> res (resource_name 99) = None \<longrightarrow>
      fst (kerr_omega res interp (1 / 10) 99 99 0 st) = Inl (ValueError ''unsupported lmn 99990''))"
proof -
  have a: "res (resource_name l) = None \<longrightarrow>
      fst (create_spline res interp name reim l m n rq) =
        Inl (ValueError (''unsupported lmn '' @ str_int l @ str_int m @ str_int n)) \<and>
      names_mode (ValueError (''unsupported lmn '' @ str_int l @ str_int m @ str_int n)) l m n"
  proof -
    have "names_mode (ValueError (''unsupported lmn '' @ str_int l @ str_int m @ str_int n)) l m n"
      unfolding names_mode_def message.simps by (rule contains_suffix)
    then show ?thesis
      using create_spline_unsupported[of res l interp name reim m n rq] by blast
  qed
  have b: "res (resource_name l) = Some fp \<and> fp (lmn_key l m n) = Some grp \<and>
    grp ''spin'' = Some xs \<and> grp name = Some ys \<and> reim \<noteq> ''re'' \<and> reim \<noteq> ''im'' \<longrightarrow>
      fst (create_spline res interp name reim l m n rq) =
        Inl (ValueError (''reim must be eiter 're' or 'im'' @ [CHR 0x27]))"
    using create_spline_selector[of res l fp m n grp xs name ys reim interp rq] by blast
  have spin: "\<bar>1 / 10 :: real\<bar> \<le> MAX_SPIN" by (simp add: MAX_SPIN_def)
  have c: "reachable res interp st \<and> res (resource_name 99) = None \<longrightarrow>
      fst (kerr_omega res interp (1 / 10) 99 99 0 st) = Inl (ValueError ''unsupported lmn 99990'')"
    using kerr_omega_unsupported[of res interp st 99 "1 / 10" 99 0] spin
    by (simp add: example_unsupported_99)
  show ?thesis using a b c by blast
qed

theorem create_spline_failures_witness:
  "example_resources (resource_name 99) = None \<and>
   fst (create_spline example_resources lagrange ''omega'' ''re'' 99 99 0 []) =
     Inl (ValueError ''unsupported lmn 99990'') \<and>
   names_mode (ValueError ''unsupported lmn 99990'') 99 99 0 \<and>
   reachable example_resources lagrange initial \<and>
   fst (kerr_omega example_resources lagrange (1 / 10) 99 99 0 initial) =
     Inl (ValueError ''unsupported lmn 99990'') \<and>
   example_resources (resource_name 2) =
     Some [''220'' \<mapsto> [''spin'' \<mapsto> example_spin, ''omega'' \<mapsto> example_omega]] \<and>
   [''220'' \<mapsto> [''spin'' \<mapsto> example_spin, ''omega'' \<mapsto> example_omega]] (lmn_key 2 2 0) =
     Some [''spin'' \<mapsto> example_spin, ''omega'' \<mapsto> example_omega] \<and>
   fst (create_spline example_resources lagrange ''omega'' ''xx'' 2 2 0 []) =
     Inl (ValueError (''reim must be eiter 're' or 'im'' @ [CHR 0x27]))"
proof -
  have r: "reachable example_resources lagrange initial" by (rule reachable.start)
  have f: "example_resources (resource_name 2) =
     Some [''220'' \<mapsto> [''spin'' \<mapsto> example_spin, ''omega'' \<mapsto> example_omega]]"
    by (simp add: example_resources_def example_resource_name)
  have g: "[''220'' \<mapsto> [''spin'' \<mapsto> example_spin, ''omega'' \<mapsto> example_omega]] (lmn_key 2 2 0) =
     Some [''spin'' \<mapsto> example_spin, ''omega'' \<mapsto> example_omega]"
    by (simp add: example_lmn_key)
  have first: "fst (create_spline example_resources lagrange ''omega'' ''re'' 99 99 0 []) =
     Inl (ValueError ''unsupported lmn 99990'') \<and>
     names_mode (ValueError ''unsupported lmn 99990'') 99 99 0 \<and>
     fst (kerr_omega example_resources lagrange (1 / 10) 99 99 0 initial) =
     Inl (ValueError ''unsupported lmn 99990'')"
    using create_spline_failures[of example_resources 99 lagrange "''omega''" "''re''" 99 0 "[]"
        Map.empty Map.empty "[]" "[]" initial]
      example_no_resource_99 r
    by (simp add: example_unsupported_99)
  have second: "fst (create_spline example_resources lagrange ''omega'' ''xx'' 2 2 0 []) =
     Inl (ValueError (''reim must be eiter 're' or 'im'' @ [CHR 0x27]))"
    using create_spline_failures[of example_resources 2 lagrange "''omega''" "''xx''" 2 0 "[]"
        "[''220'' \<mapsto> [''spin'' \<mapsto> example_spin, ''omega'' \<mapsto> example_omega]]"
        "[''spin'' \<mapsto> example_spin, ''omega'' \<mapsto> example_omega]" example_spin example_omega initial]
      f g
    by simp
  show ?thesis using example_no_resource_99 r f g first second by blast
qed

text \<open>
  Claim C7. Both caches are empty at the start. A request for a key that is not cached
  runs \<^verbatim>\<open>_create_spline\<close> and stores its spline under \<open>(l, |m|, n)\<close>; no call of
  \<^verbatim>\<open>_getspline\<close> or of a public function removes or replaces an entry; a second call of
  \<^verbatim>\<open>_getspline\<close> with the same arguments returns the stored spline and requests no
  resource; and a public function called twice with the same arguments returns the
  same result, the second call leaving the state as it found it when the first one
  succeeded.
\<close>

theorem spline_cache_lifecycle:
  "reomega_splines initial = Map.empty \<and> imomega_splines initial = Map.empty \<and>
   (cache (l, \<bar>m\<bar>, n) = None \<and> fst (create_spline res interp name reim l m n rq) = Inr s \<longrightarrow>
      getspline res interp name reim l m n cache rq =
        (Inr s, cache((l, \<bar>m\<bar>, n) \<mapsto> s), rq @ [resource_name l])) \<and>
   (cache k = Some s' \<longrightarrow>
      fst (snd (getspline res interp name reim l m n cache rq)) k = Some s') \<and>
   (reomega_splines st k = Some s' \<longrightarrow>
      reomega_splines (snd (kerr_omega res interp spin l m n st)) k = Some s' \<and>
      reomega_splines (snd (kerr_freq res interp mass spin l m n st)) k = Some s' \<and>
      reomega_splines (snd (kerr_tau res interp mass spin l m n st)) k = Some s') \<and>
   (imomega_splines st k = Some s' \<longrightarrow>
      imomega_splines (snd (kerr_omega res interp spin l m n st)) k = Some s' \<and>
      imomega_splines (snd (kerr_freq res interp mass spin l m n st)) k = Some s' \<and>
      imomega_splines (snd (kerr_tau res interp mass spin l m n st)) k = Some s') \<and>
   (getspline res interp name reim l m n cache rq = (Inr s, c, rq') \<longrightarrow>
      getspline res interp name reim l m n c rq' = (Inr s, c, rq')) \<and>
   (fst (kerr_omega res interp spin l m n st) = Inr z \<longrightarrow>
      kerr_omega res interp spin l m n (snd (kerr_omega res interp spin l m n st)) =
        (Inr z, snd (kerr_omega res interp spin l m n st))) \<and>
   (fst (kerr_freq res interp mass spin l m n st) = Inr v \<longrightarrow>
      kerr_freq res interp mass spin l m n (snd (kerr_freq res interp mass spin l m n st)) =
        (Inr v, snd (kerr_freq res interp mass spin l m n st))) \<and>
   (fst (kerr_tau res interp mass spin l m n st) = Inr w \<longrightarrow>
      kerr_tau res interp mass spin l m n (snd (kerr_tau res interp mass spin l m n st)) =
        (Inr w, snd (kerr_tau res interp mass spin l m n st))) \<and>
   fst (kerr_omega res interp spin l m n (snd (kerr_omega res interp spin l m n st))) =
     fst (kerr_omega res interp spin l m n st) \<and>
   fst (kerr_freq res interp mass spin l m n (snd (kerr_freq res interp mass spin l m n st))) =
     fst (kerr_freq res interp mass spin l m n st) \<and>
   fst (kerr_tau res interp mass spin l m n (snd (kerr_tau res interp mass spin l m n st))) =
     fst (kerr_tau res interp mass spin l m n st)"
proof -
  have "reomega_splines initial = Map.empty" and "imomega_splines initial = Map.empty"
    by (simp_all add: initial_def)
  moreover have "cache (l, \<bar>m\<bar>, n) = None \<and> fst (create_spline res interp name reim l m n rq) = Inr s \<longrightarrow>
      getspline res interp name reim l m n cache rq =
        (Inr s, cache((l, \<bar>m\<bar>, n) \<mapsto> s), rq @ [resource_name l])"
    by (simp add: getspline_first)
  moreover have "cache k = Some s' \<longrightarrow>
      fst (snd (getspline res interp name reim l m n cache rq)) k = Some s'"
    by (simp add: getspline_keeps)
  moreover have "reomega_splines st k = Some s' \<longrightarrow>
      reomega_splines (snd (kerr_omega res interp spin l m n st)) k = Some s' \<and>
      reomega_splines (snd (kerr_freq res interp mass spin l m n st)) k = Some s' \<and>
      reomega_splines (snd (kerr_tau res interp mass spin l m n st)) k = Some s'"
    by (simp add: public_keep_re)
  moreover have "imomega_splines st k = Some s' \<longrightarrow>
      imomega_splines (snd (kerr_omega res interp spin l m n st)) k = Some s' \<and>
      imomega_splines (snd (kerr_freq res interp mass spin l m n st)) k = Some s' \<and>
      imomega_splines (snd (kerr_tau res interp mass spin l m n st)) k = Some s'"
    by (simp add: public_keep_im)
  moreover have "getspline res interp name reim l m n cache rq = (Inr s, c, rq') \<longrightarrow>
      getspline res interp name reim l m n c rq' = (Inr s, c, rq')"
    by (simp add: getspline_again)
  moreover have "fst (kerr_omega res interp spin l m n st) = Inr z \<longrightarrow>
      kerr_omega res interp spin l m n (snd (kerr_omega res interp spin l m n st)) =
        (Inr z, snd (kerr_omega res interp spin l m n st))"
    by (simp add: kerr_omega_idem)
  moreover have "fst (kerr_freq res interp mass spin l m n st) = Inr v \<longrightarrow>
      kerr_freq res interp mass spin l m n (snd (kerr_freq res interp mass spin l m n st)) =
        (Inr v, snd (kerr_freq res interp mass spin l m n st))"
    by (simp add: kerr_freq_idem)
  moreover have "fst (kerr_tau res interp mass spin l m n st) = Inr w \<longrightarrow>
      kerr_tau res interp mass spin l m n (snd (kerr_tau res interp mass spin l m n st)) =
        (Inr w, snd (kerr_tau res interp mass spin l m n st))"
    by (simp add: kerr_tau_idem)
  moreover note kerr_omega_repeat[of res interp spin l m n st]
    kerr_freq_repeat[of res interp mass spin l m n st]
    kerr_tau_repeat[of res interp mass spin l m n st]
  ultimately show ?thesis by (intro conjI)
qed

theorem spline_cache_lifecycle_witness:
  "(Map.empty :: cache) (2, \<bar>2\<bar>, 0) = None \<and>
   fst (create_spline example_resources lagrange ''omega'' ''re'' 2 2 0 []) = Inr example_re_spline \<and>
   getspline example_resources lagrange ''omega'' ''re'' 2 2 0 Map.empty [] =
     (Inr example_re_spline, [(2, 2, 0) \<mapsto> example_re_spline], [''data/l2.hdf'']) \<and>
   getspline example_resources lagrange ''omega'' ''re'' 2 2 0
       [(2, 2, 0) \<mapsto> example_re_spline] [''data/l2.hdf''] =
     (Inr example_re_spline, [(2, 2, 0) \<mapsto> example_re_spline], [''data/l2.hdf'']) \<and>
   fst (kerr_omega example_resources lagrange 0 2 2 0 initial) =
     Inr (Complex (37 / 100) (- 89 / 1000)) \<and>
   kerr_omega example_resources lagrange 0 2 2 0 example_loaded =
     (Inr (Complex (37 / 100) (- 89 / 1000)), example_loaded) \<and>
   reomega_splines example_loaded (2, 2, 0) = Some example_re_spline \<and>
   imomega_splines example_loaded (2, 2, 0) = Some example_im_spline \<and>
   reomega_splines (snd (kerr_freq example_resources lagrange 10 (1 / 2) 2 (- 2) 0 example_loaded))
     (2, 2, 0) = Some example_re_spline \<and>
   imomega_splines (snd (kerr_tau example_resources lagrange 10 (1 / 2) 2 (- 2) 0 example_loaded))
     (2, 2, 0) = Some example_im_spline \<and>
   fst (kerr_freq example_resources lagrange 10 0 2 2 0 initial) =
     Inr (np_div (37 / 100) (2 * pi * 10 * MTSUN)) \<and>
   fst (kerr_freq example_resources lagrange 10 0 2 2 0
          (snd (kerr_freq example_resources lagrange 10 0 2 2 0 initial))) =
     Inr (np_div (37 / 100) (2 * pi * 10 * MTSUN)) \<and>
   fst (kerr_tau example_resources lagrange 10 0 2 2 0 initial) =
     Inr (np_div (- 10 * MTSUN) (- 89 / 1000)) \<and>
   fst (kerr_tau example_resources lagrange 10 0 2 2 0
          (snd (kerr_tau example_resources lagrange 10 0 2 2 0 initial))) =
     Inr (np_div (- 10 * MTSUN) (- 89 / 1000))"
proof -
  note life = spline_cache_lifecycle[where res = example_resources and interp = lagrange
      and l = 2 and m = 2 and n = 0 and name = "''omega''" and reim = "''re''"
      and s = example_re_spline and spin = 0 and mass = 10]
  have miss: "(Map.empty :: cache) (2, \<bar>2\<bar>, 0) = None" by simp
  have made: "fst (create_spline example_resources lagrange ''omega'' ''re'' 2 2 0 []) =
      Inr example_re_spline"
    by (simp add: example_create_re)
  have first: "getspline example_resources lagrange ''omega'' ''re'' 2 2 0 Map.empty [] =
      (Inr example_re_spline, [(2, 2, 0) \<mapsto> example_re_spline], [''data/l2.hdf''])"
    using life[where cache = Map.empty and rq = "[]"] miss made
    by (simp add: example_resource_name)
  have second: "getspline example_resources lagrange ''omega'' ''re'' 2 2 0
       [(2, 2, 0) \<mapsto> example_re_spline] [''data/l2.hdf''] =
     (Inr example_re_spline, [(2, 2, 0) \<mapsto> example_re_spline], [''data/l2.hdf''])"
    using life[where cache = Map.empty and rq = "[]" and c = "[(2, 2, 0) \<mapsto> example_re_spline]"
        and rq' = "[''data/l2.hdf'']"] first
    by simp
  have call: "fst (kerr_omega example_resources lagrange 0 2 2 0 initial) =
      Inr (Complex (37 / 100) (- 89 / 1000))"
    by (simp add: example_first_call)
  have loaded: "snd (kerr_omega example_resources lagrange 0 2 2 0 initial) = example_loaded"
    by (simp add: example_first_call)
  have recall: "kerr_omega example_resources lagrange 0 2 2 0 example_loaded =
      (Inr (Complex (37 / 100) (- 89 / 1000)), example_loaded)"
    using life[where st = initial and z = "Complex (37 / 100) (- 89 / 1000)"] call loaded
    by simp
  have re: "reomega_splines example_loaded (2, 2, 0) = Some example_re_spline"
    by (simp add: example_loaded_def)
  have im: "imomega_splines example_loaded (2, 2, 0) = Some example_im_spline"
    by (simp add: example_loaded_def)
  note life' = spline_cache_lifecycle[where res = example_resources and interp = lagrange
      and l = 2 and m = "- 2" and n = 0 and spin = "1 / 2" and mass = 10 and st = example_loaded
      and k = "(2, 2, 0)"]
  have re': "reomega_splines (snd (kerr_freq example_resources lagrange 10 (1 / 2) 2 (- 2) 0 example_loaded))
     (2, 2, 0) = Some example_re_spline"
    using life'[where s' = example_re_spline] re by simp
  have im': "imomega_splines (snd (kerr_tau example_resources lagrange 10 (1 / 2) 2 (- 2) 0 example_loaded))
     (2, 2, 0) = Some example_im_spline"
    using life'[where s' = example_im_spline] im by simp
  have f: "fst (kerr_freq example_resources lagrange 10 0 2 2 0 initial) =
     Inr (np_div (37 / 100) (2 * pi * 10 * MTSUN))"
    by (rule example_freq)
  have f': "fst (kerr_freq example_resources lagrange 10 0 2 2 0
          (snd (kerr_freq example_resources lagrange 10 0 2 2 0 initial))) =
     Inr (np_div (37 / 100) (2 * pi * 10 * MTSUN))"
    using life[where st = initial and v = "np_div (37 / 100) (2 * pi * 10 * MTSUN)"] f by simp
  have t: "fst (kerr_tau example_resources lagrange 10 0 2 2 0 initial) =
     Inr (np_div (- 10 * MTSUN) (- 89 / 1000))"
    by (rule example_tau)
  have t': "fst (kerr_tau example_resources lagrange 10 0 2 2 0
          (snd (kerr_tau example_resources lagrange 10 0 2 2 0 initial))) =
     Inr (np_div (- 10 * MTSUN) (- 89 / 1000))"
    using life[where st = initial and w = "np_div (- 10 * MTSUN) (- 89 / 1000)"] t by simp
  show ?thesis
    using miss made first second call recall re im re' im' f f' t t' by (intro conjI)
qed

text \<open>
  Claim C6. For \<open>m = 0\<close> the evaluation uses the absolute value of the spin: for a spin
  within the bound and a mode \<open>(l, 0, n)\<close> with data, \<^verbatim>\<open>kerr_omega\<close> returns the real-part
  and the imaginary-part interpolant at \<open>|spin|\<close>, for \<open>spin\<close> and for \<open>- spin\<close> alike.
  Whatever the spin, the data and the state, the call with \<open>- spin\<close> returns what the
  call with \<open>spin\<close> returns and leaves the same state, and it also returns that value
  when it is made after the call with \<open>spin\<close>.
\<close>

theorem kerr_omega_m0_abs_spin:
  "(reachable res interp st \<and> \<bar>spin\<bar> \<le> MAX_SPIN \<and> mode_data res l 0 n = Some (xs, ys) \<longrightarrow>
      fst (kerr_omega res interp spin l 0 n st) =
        Inr (Complex (interp (map Re xs) (map Re ys) \<bar>spin\<bar>)
                     (interp (map Re xs) (map Im ys) \<bar>spin\<bar>)) \<and>
      fst (kerr_omega res interp (- spin) l 0 n st) =
        Inr (Complex (interp (map Re xs) (map Re ys) \<bar>spin\<bar>)
                     (interp (map Re xs) (map Im ys) \<bar>spin\<bar>))) \<and>
   kerr_omega res interp (- spin) l 0 n st = kerr_omega res interp spin l 0 n st \<and>
   fst (kerr_omega res interp (- spin) l 0 n (snd (kerr_omega res interp spin l 0 n st))) =
     fst (kerr_omega res interp spin l 0 n st)"
proof -
  have same: "\<And>s. kerr_omega res interp (- spin) l 0 n s = kerr_omega res interp spin l 0 n s"
    by (simp add: kerr_omega_def checkspin_neg Let_def split: sum.splits prod.splits)
  have even: "kerr_omega res interp (- spin) l 0 n st = kerr_omega res interp spin l 0 n st"
    by (rule same)
  have after: "fst (kerr_omega res interp (- spin) l 0 n (snd (kerr_omega res interp spin l 0 n st))) =
      fst (kerr_omega res interp spin l 0 n st)"
    by (simp only: same kerr_omega_repeat)
  have "fst (kerr_omega res interp spin l 0 n st) =
        Inr (Complex (interp (map Re xs) (map Re ys) \<bar>spin\<bar>)
                     (interp (map Re xs) (map Im ys) \<bar>spin\<bar>))"
    if r: "reachable res interp st" and s: "\<bar>spin\<bar> \<le> MAX_SPIN"
      and d: "mode_data res l 0 n = Some (xs, ys)"
  proof -
    have fits: "cache_fits res interp Re (reomega_splines st)"
      "cache_fits res interp Im (imomega_splines st)"
      using r reachable_fits by blast+
    show ?thesis
      using kerr_omega_data[OF fits s d] by simp
  qed
  then have val: "reachable res interp st \<and> \<bar>spin\<bar> \<le> MAX_SPIN \<and>
      mode_data res l 0 n = Some (xs, ys) \<longrightarrow>
      fst (kerr_omega res interp spin l 0 n st) =
        Inr (Complex (interp (map Re xs) (map Re ys) \<bar>spin\<bar>)
                     (interp (map Re xs) (map Im ys) \<bar>spin\<bar>)) \<and>
      fst (kerr_omega res interp (- spin) l 0 n st) =
        Inr (Complex (interp (map Re xs) (map Re ys) \<bar>spin\<bar>)
                     (interp (map Re xs) (map Im ys) \<bar>spin\<bar>))"
    by (simp add: even)
  from val even after show ?thesis by (intro conjI)
qed

theorem kerr_omega_m0_abs_spin_witness:
  "reachable example_resources_m0 lagrange initial \<and> \<bar>- 1 / 2 :: real\<bar> \<le> MAX_SPIN \<and>
   mode_data example_resources_m0 2 0 0 = Some (example_spin, example_omega) \<and>
   fst (kerr_omega example_resources_m0 lagrange (- 1 / 2) 2 0 0 initial) =
     Inr (Complex (46 / 100) (- 86 / 1000)) \<and>
   fst (kerr_omega example_resources_m0 lagrange (1 / 2) 2 0 0 initial) =
     Inr (Complex (46 / 100) (- 86 / 1000)) \<and>
   lagrange (map Re example_spin) (map Re example_omega) (- 1 / 2) = 32 / 100"
proof -
  have r: "reachable example_resources_m0 lagrange initial" by (rule reachable.start)
  have s: "\<bar>- 1 / 2 :: real\<bar> \<le> MAX_SPIN" by (simp add: MAX_SPIN_def)
  have v: "fst (kerr_omega example_resources_m0 lagrange (- 1 / 2) 2 0 0 initial) =
      Inr (Complex (46 / 100) (- 86 / 1000)) \<and>
    fst (kerr_omega example_resources_m0 lagrange (1 / 2) 2 0 0 initial) =
      Inr (Complex (46 / 100) (- 86 / 1000))"
    using kerr_omega_m0_abs_spin[of example_resources_m0 lagrange initial "- 1 / 2" 2 0
        example_spin example_omega] r s example_mode_m0
    by (simp add: example_re_at_half example_im_at_half)
  show ?thesis
    using r s example_mode_m0 v example_re_at_minus_half by (intro conjI) simp_all
qed

end
